theory Spec2Isabelle
  imports Main "HOL-Library.AList"
begin

section \<open>Solana chain commands of the command-line client\<close>

text \<open>
  A shallow embedding of \<^verbatim>\<open>core/cmd/solana_chains_commands.go\<close>: the presenter of a
  Solana chain resource (\<^verbatim>\<open>ToRow\<close>, \<^verbatim>\<open>RenderTable\<close>) and the commands that create and
  configure a chain. What the file calls but does not define is treated as follows.
  The library functions with a short, fixed meaning (\<^verbatim>\<open>multierr.Append\<close>,
  \<^verbatim>\<open>strings.SplitN\<close>, \<^verbatim>\<open>strconv.FormatBool\<close>, \<^verbatim>\<open>json.Marshal\<close> on decoded values) are
  definitions. The library functions that depend on text formats, and the HTTP client
  and helpers of the \<^verbatim>\<open>Client\<close>, are fields of the two records \<open>golib\<close> and \<open>Client\<close>, so
  that every theorem holds whatever they do. The few declarations of this repository
  that are needed as definitions are marked as modelled from the specification.
\<close>

subsection \<open>Errors, panics and results\<close>

text \<open>
  A Go \<^verbatim>\<open>error\<close> is represented by the messages of its causes: an ordinary error has
  one, an error built by \<^verbatim>\<open>multierr.Append\<close> has the messages of everything appended.
  The nil error is \<open>None\<close> of \<open>error option\<close>.
\<close>

datatype error = Err string | MultiErr "string list"

fun Errors :: "error \<Rightarrow> string list" where
  "Errors (Err m) = [m]"
| "Errors (MultiErr ms) = ms"

text \<open>The text of \<^verbatim>\<open>err.Error()\<close>: multierr joins the messages with a semicolon.\<close>

fun Join :: "string list \<Rightarrow> string \<Rightarrow> string" where
  "Join [] sep = []"
| "Join [m] sep = m"
| "Join (m # ms) sep = m @ sep @ Join ms sep"

fun Error_text :: "error \<Rightarrow> string" where
  "Error_text (Err m) = m"
| "Error_text (MultiErr ms) = Join ms ''; ''"

text \<open>
  \<^verbatim>\<open>multierr.Append(left, right)\<close>: nil on one side gives the other side; two errors
  give one error holding the causes of both, flattened, left before right.
\<close>

fun multierr_Append :: "error option \<Rightarrow> error option \<Rightarrow> error option" where
  "multierr_Append None right = right"
| "multierr_Append left None = left"
| "multierr_Append (Some l) (Some r) = Some (MultiErr (Errors l @ Errors r))"

text \<open>A call either returns a value or panics with an error value.\<close>

datatype 'a outcome = Returned 'a | Panic error

subsection \<open>Structured data\<close>

text \<open>
  A JSON value with numbers of type \<open>'n\<close>. An object is the list of its members; for the
  Go map it stands for only \<open>map_of\<close> of that list matters.
\<close>

datatype 'n json =
    JNull
  | JBool bool
  | JNumber 'n
  | JString string
  | JArray "'n json list"
  | JObject "(string \<times> 'n json) list"

text \<open>
  A Go \<^verbatim>\<open>float64\<close> is a finite number (of a type \<open>'f\<close> that is left open) or one of the
  three values that no JSON text denotes. A Go value of type \<^verbatim>\<open>interface{}\<close> holding
  structured data is a \<open>json\<close> tree over \<open>float64\<close>; a JSON text is represented by the
  tree over \<open>'f\<close> that it denotes. A Go string is taken to be valid UTF-8 text, which
  \<^verbatim>\<open>encoding/json\<close> writes and reads back unchanged.
\<close>

datatype 'f float64 = Finite 'f | NaN | PosInf | NegInf

type_synonym 'f govalue = "'f float64 json"

text \<open>
  What \<^verbatim>\<open>json.Unmarshal\<close> stores into an \<^verbatim>\<open>interface{}\<close> for a JSON text: the same tree,
  every number a finite \<^verbatim>\<open>float64\<close>.
\<close>

fun of_json :: "'f json \<Rightarrow> 'f govalue"
  and of_elems :: "'f json list \<Rightarrow> 'f govalue list"
  and of_members :: "(string \<times> 'f json) list \<Rightarrow> (string \<times> 'f govalue) list"
where
  "of_json JNull = JNull"
| "of_json (JBool b) = JBool b"
| "of_json (JNumber x) = JNumber (Finite x)"
| "of_json (JString s) = JString s"
| "of_json (JArray js) = JArray (of_elems js)"
| "of_json (JObject kjs) = JObject (of_members kjs)"
| "of_elems [] = []"
| "of_elems (j # js) = of_json j # of_elems js"
| "of_members [] = []"
| "of_members ((k, j) # kjs) = (k, of_json j) # of_members kjs"

text \<open>
  \<^verbatim>\<open>json.Marshal\<close> on such a value: it walks the tree and fails with an
  \<^verbatim>\<open>UnsupportedValueError\<close> at the first number that is not finite.
\<close>

fun UnsupportedValueError :: "string \<Rightarrow> error" where
  "UnsupportedValueError s = Err (''json: unsupported value: '' @ s)"

fun json_Marshal :: "'f govalue \<Rightarrow> error + 'f json"
  and marshal_elems :: "'f govalue list \<Rightarrow> error + 'f json list"
  and marshal_members :: "(string \<times> 'f govalue) list \<Rightarrow> error + (string \<times> 'f json) list"
where
  "json_Marshal JNull = Inr JNull"
| "json_Marshal (JBool b) = Inr (JBool b)"
| "json_Marshal (JNumber (Finite x)) = Inr (JNumber x)"
| "json_Marshal (JNumber NaN) = Inl (UnsupportedValueError ''NaN'')"
| "json_Marshal (JNumber PosInf) = Inl (UnsupportedValueError ''+Inf'')"
| "json_Marshal (JNumber NegInf) = Inl (UnsupportedValueError ''-Inf'')"
| "json_Marshal (JString s) = Inr (JString s)"
| "json_Marshal (JArray vs) =
     (case marshal_elems vs of Inl e \<Rightarrow> Inl e | Inr js \<Rightarrow> Inr (JArray js))"
| "json_Marshal (JObject kvs) =
     (case marshal_members kvs of Inl e \<Rightarrow> Inl e | Inr kjs \<Rightarrow> Inr (JObject kjs))"
| "marshal_elems [] = Inr []"
| "marshal_elems (v # vs) =
     (case json_Marshal v of Inl e \<Rightarrow> Inl e
      | Inr j \<Rightarrow> (case marshal_elems vs of Inl e \<Rightarrow> Inl e | Inr js \<Rightarrow> Inr (j # js)))"
| "marshal_members [] = Inr []"
| "marshal_members ((k, v) # kvs) =
     (case json_Marshal v of Inl e \<Rightarrow> Inl e
      | Inr j \<Rightarrow> (case marshal_members kvs of Inl e \<Rightarrow> Inl e | Inr kjs \<Rightarrow> Inr ((k, j) # kjs)))"

text \<open>
  A value is decoded when it is what decoding a JSON text gives: no number in it is
  \<^verbatim>\<open>NaN\<close> or infinite.
\<close>

fun decoded :: "'f govalue \<Rightarrow> bool"
  and decoded_elems :: "'f govalue list \<Rightarrow> bool"
  and decoded_members :: "(string \<times> 'f govalue) list \<Rightarrow> bool"
where
  "decoded JNull = True"
| "decoded (JBool b) = True"
| "decoded (JNumber (Finite x)) = True"
| "decoded (JNumber NaN) = False"
| "decoded (JNumber PosInf) = False"
| "decoded (JNumber NegInf) = False"
| "decoded (JString s) = True"
| "decoded (JArray vs) = decoded_elems vs"
| "decoded (JObject kvs) = decoded_members kvs"
| "decoded_elems [] = True"
| "decoded_elems (v # vs) = (decoded v \<and> decoded_elems vs)"
| "decoded_members [] = True"
| "decoded_members ((k, v) # kvs) = (decoded v \<and> decoded_members kvs)"

subsection \<open>The Go standard library\<close>

text \<open>
  The functions of the standard library whose results depend on text formats:
  \<^item> \<open>json_Unmarshal\<close>: \<^verbatim>\<open>json.Unmarshal\<close> of a text into an \<^verbatim>\<open>interface{}\<close>; \<open>None\<close> when it
    returns an error;
  \<^item> \<open>json_Indent\<close>: the text \<^verbatim>\<open>json.Indent\<close> writes for a JSON text, with an empty prefix
    and four spaces of indentation;
  \<^item> \<open>json_Compact\<close>: \<^verbatim>\<open>json.Marshal\<close> on a \<^verbatim>\<open>json.RawMessage\<close>: the compacted text, or the
    error for bytes that are not JSON;
  \<^item> \<open>time_String\<close>: \<^verbatim>\<open>time.Time.String\<close>, over a type \<open>'t\<close> of times that is left open.
\<close>

record ('f, 't) golib =
  json_Unmarshal :: "string \<Rightarrow> 'f json option"
  json_Indent :: "'f json \<Rightarrow> string"
  json_Compact :: "string \<Rightarrow> error + string"
  time_String :: "'t \<Rightarrow> string"

text \<open>\<^verbatim>\<open>json.MarshalIndent(v, "", "    ")\<close> is \<^verbatim>\<open>json.Marshal\<close> followed by \<^verbatim>\<open>json.Indent\<close>.\<close>

definition json_MarshalIndent :: "('f, 't) golib \<Rightarrow> 'f govalue \<Rightarrow> error + string" where
  "json_MarshalIndent L v =
     (case json_Marshal v of Inl e \<Rightarrow> Inl e | Inr j \<Rightarrow> Inr (json_Indent L j))"

fun strconv_FormatBool :: "bool \<Rightarrow> string" where
  "strconv_FormatBool True = ''true''"
| "strconv_FormatBool False = ''false''"

subsection \<open>The resource and its presenter\<close>

text \<open>
  Modelled from the spec: \<^verbatim>\<open>presenters.SolanaChainResource\<close> is declared outside this
  file. Following the data model of the specification it has an identifier (what
  \<^verbatim>\<open>GetID\<close> returns), the enabled flag, the configuration document and the two
  timestamps. The type of the configuration, and so whether it is a map or a struct
  with fixed fields, is not declared in this file; it is modelled as the data model
  describes it, a map from field names to structured values that always holds
  structured data decoded from a response. \<open>Config\<close> is the JSON document it was decoded
  from, and the Go value of the field is \<open>of_json\<close> of that document.
\<close>

record ('f, 't) SolanaChainResource =
  ID :: string
  Enabled :: bool
  Config :: "(string \<times> 'f json) list"
  CreatedAt :: 't
  UpdatedAt :: 't

type_synonym ('f, 't) SolanaChainPresenter = "('f, 't) SolanaChainResource"

definition GetID :: "('f, 't) SolanaChainResource \<Rightarrow> string" where
  "GetID p = ID p"

definition ToRow :: "('f, 't) golib \<Rightarrow> ('f, 't) SolanaChainPresenter \<Rightarrow> string list outcome" where
  "ToRow L p =
     (case json_MarshalIndent L (of_json (JObject (Config p))) of
        Inl err \<Rightarrow> Panic err
      | Inr config \<Rightarrow>
          Returned [GetID p,
                    strconv_FormatBool (Enabled p),
                    config,
                    time_String L (CreatedAt p),
                    time_String L (UpdatedAt p)])"

text \<open>
  Modelled from the spec: \<^verbatim>\<open>renderList\<close> and the \<^verbatim>\<open>RendererTable\<close> are declared outside this
  file. The sink is represented by the rows written to it so far and by whether
  writing to it fails. \<^verbatim>\<open>renderList\<close> writes the header row and then the data rows, in
  the order given; it has no result, so on a failing sink nothing is written and
  nothing is reported.
\<close>

record Writer =
  written :: "string list list"
  failing :: bool

record RendererTable =
  Writer :: Writer

definition renderList :: "string list \<Rightarrow> string list list \<Rightarrow> Writer \<Rightarrow> Writer" where
  "renderList hdr items w =
     (if failing w then w else w\<lparr>written := written w @ hdr # items\<rparr>)"

definition headers :: "string list" where
  "headers = [''ID'', ''Enabled'', ''Config'', ''Created'', ''Updated'']"

text \<open>
  \<^verbatim>\<open>RenderTable\<close> of one presenter. The result is the sink afterwards and the error
  returned.
\<close>

definition SolanaChainPresenter_RenderTable ::
  "('f, 't) golib \<Rightarrow> ('f, 't) SolanaChainPresenter \<Rightarrow> RendererTable \<Rightarrow> (Writer \<times> error option) outcome"
where
  "SolanaChainPresenter_RenderTable L p rt =
     (case ToRow L p of
        Panic e \<Rightarrow> Panic e
      | Returned row \<Rightarrow>
          (let rows = [] @ [row]
           in Returned (renderList headers rows (Writer rt), None)))"

text \<open>The loop of \<^verbatim>\<open>RenderTable\<close> over a slice of presenters: one row appended per member.\<close>

fun append_rows ::
  "('f, 't) golib \<Rightarrow> ('f, 't) SolanaChainPresenter list \<Rightarrow> string list list \<Rightarrow> string list list outcome"
where
  "append_rows L [] rows = Returned rows"
| "append_rows L (p # ps) rows =
     (case ToRow L p of
        Panic e \<Rightarrow> Panic e
      | Returned row \<Rightarrow> append_rows L ps (rows @ [row]))"

definition SolanaChainPresenters_RenderTable ::
  "('f, 't) golib \<Rightarrow> ('f, 't) SolanaChainPresenter list \<Rightarrow> RendererTable \<Rightarrow> (Writer \<times> error option) outcome"
where
  "SolanaChainPresenters_RenderTable L ps rt =
     (case append_rows L ps [] of
        Panic e \<Rightarrow> Panic e
      | Returned rows \<Rightarrow> Returned (renderList headers rows (Writer rt), None))"

subsection \<open>The command line and the client\<close>

text \<open>
  The \<^verbatim>\<open>cli.Context\<close> of a command: the value of the \<^verbatim>\<open>id\<close> flag (\<^verbatim>\<open>c.String("id")\<close>) and
  the positional arguments (\<^verbatim>\<open>c.Args()\<close>).
\<close>

record Context =
  id_flag :: string
  Args :: "string list"

definition Present :: "string list \<Rightarrow> bool" where
  "Present args = (length args \<noteq> 0)"

definition First :: "string list \<Rightarrow> string" where
  "First args = (case args of [] \<Rightarrow> [] | a # _ \<Rightarrow> a)"

text \<open>
  An \<^verbatim>\<open>*http.Response\<close> is a handle; the nil pointer is \<open>None\<close>. What was sent and closed
  is recorded as a list of events. The body of the POST, the object with the members
  \<^verbatim>\<open>chainID\<close> and \<^verbatim>\<open>config\<close>, is held as the pair of the two; the body of the PATCH is
  held as the JSON value its text denotes.
\<close>

datatype response = Response nat

datatype 'f event =
    GET string
  | POST string "string \<times> string"
  | PATCH string "'f json"
  | CLOSE response

text \<open>
  The collaborators of the \<^verbatim>\<open>Client\<close> that are defined outside this file:
  \<^item> \<open>HTTP_Get\<close>, \<open>HTTP_Post\<close>, \<open>HTTP_Patch\<close>: the methods of \<^verbatim>\<open>cli.HTTP\<close>, each returning a
    response pointer and an error;
  \<^item> \<open>Body_Close r n\<close>: what \<^verbatim>\<open>r.Body.Close()\<close> returns when \<open>r\<close> has been closed \<open>n\<close> times
    before;
  \<^item> \<open>deserializeAPIResponse\<close>: the error it returns, or the resource it fills in;
  \<^item> \<open>renderAPIResponse\<close>: the error it returns;
  \<^item> \<open>getBufferFromJSON\<close>: the bytes of the JSON blob or file, or an error.
\<close>

record ('f, 't) Client =
  HTTP_Get :: "string \<Rightarrow> response option \<times> error option"
  HTTP_Post :: "string \<Rightarrow> string \<times> string \<Rightarrow> response option \<times> error option"
  HTTP_Patch :: "string \<Rightarrow> 'f json \<Rightarrow> response option \<times> error option"
  Body_Close :: "response \<Rightarrow> nat \<Rightarrow> error option"
  deserializeAPIResponse :: "response option \<Rightarrow> error + ('f, 't) SolanaChainResource"
  renderAPIResponse :: "response option \<Rightarrow> error option"
  getBufferFromJSON :: "string \<Rightarrow> error + string"

text \<open>
  Modelled from the spec: \<^verbatim>\<open>cli.errorOut\<close> is declared outside this file. Every error
  signalled ends the invocation with that error's message; nil stays nil.
\<close>

fun errorOut :: "error option \<Rightarrow> error option" where
  "errorOut None = None"
| "errorOut (Some e) = Some (Err (Error_text e))"

subsection \<open>Deferred closing of the response body\<close>

text \<open>
  The state of a command at its \<^verbatim>\<open>return\<close> statement: the events so far, the value of the
  variable \<^verbatim>\<open>resp\<close>, how many deferred functions are registered, and the value the
  statement gives to the named result \<^verbatim>\<open>err\<close>.
\<close>

record 'f frame =
  trace :: "'f event list"
  resp :: "response option"
  deferred :: nat
  err :: "error option"

definition nil_dereference :: error where
  "nil_dereference = Err ''runtime error: invalid memory address or nil pointer dereference''"

text \<open>
  One deferred function: it closes the body of whatever \<^verbatim>\<open>resp\<close> holds when it runs, and
  appends a failure of the close to \<^verbatim>\<open>err\<close>. On a nil \<^verbatim>\<open>resp\<close> it panics. It runs also while
  the function is panicking.
\<close>

fun deferred_close ::
  "('f, 't) Client \<Rightarrow> response option \<Rightarrow> nat \<Rightarrow> 'f event list \<times> error option outcome
     \<Rightarrow> 'f event list \<times> error option outcome"
where
  "deferred_close cli None n (tr, out) = (tr, Panic nil_dereference)"
| "deferred_close cli (Some r) n (tr, Panic e) = (tr @ [CLOSE r], Panic e)"
| "deferred_close cli (Some r) n (tr, Returned e) =
     (tr @ [CLOSE r],
      Returned (case Body_Close cli r n of
                  None \<Rightarrow> e
                | Some cerr \<Rightarrow> multierr_Append e (Some cerr)))"

text \<open>
  The deferred functions of this file are all the same closure over the one variable
  \<^verbatim>\<open>resp\<close>, so running \<open>d\<close> of them closes the same response \<open>d\<close> times.
\<close>

fun run_deferred ::
  "('f, 't) Client \<Rightarrow> response option \<Rightarrow> nat \<Rightarrow> nat \<Rightarrow> 'f event list \<times> error option outcome
     \<Rightarrow> 'f event list \<times> error option outcome"
where
  "run_deferred cli r 0 n st = st"
| "run_deferred cli r (Suc d) n st = run_deferred cli r d (Suc n) (deferred_close cli r n st)"

definition return_from :: "('f, 't) Client \<Rightarrow> 'f frame \<Rightarrow> 'f event list \<times> error option outcome" where
  "return_from cli fr = run_deferred cli (resp fr) (deferred fr) 0 (trace fr, Returned (err fr))"

subsection \<open>Creating a chain\<close>

definition CreateSolanaChain_body ::
  "('f, 't) golib \<Rightarrow> ('f, 't) Client \<Rightarrow> Context \<Rightarrow> 'f frame"
where
  "CreateSolanaChain_body L cli c =
     (if \<not> Present (Args c) then
        \<lparr>trace = [], resp = None, deferred = 0,
         err = errorOut (Some (Err
           ''must pass in the chain's parameters [-id string] [JSON blob | JSON filepath]''))\<rparr>
      else
        let chainID = id_flag c in
        if chainID = [] then
          \<lparr>trace = [], resp = None, deferred = 0,
           err = errorOut (Some (Err ''missing chain ID [-id string]''))\<rparr>
        else
          (case getBufferFromJSON cli (First (Args c)) of
             Inl e \<Rightarrow> \<lparr>trace = [], resp = None, deferred = 0, err = errorOut (Some e)\<rparr>
           | Inr buf \<Rightarrow>
               (case json_Compact L buf of
                  Inl e \<Rightarrow> \<lparr>trace = [], resp = None, deferred = 0, err = errorOut (Some e)\<rparr>
                | Inr config \<Rightarrow>
                    (case HTTP_Post cli ''/v2/chains/solana'' (chainID, config) of
                       (r, Some e) \<Rightarrow>
                         \<lparr>trace = [POST ''/v2/chains/solana'' (chainID, config)], resp = r,
                          deferred = 0, err = errorOut (Some e)\<rparr>
                     | (r, None) \<Rightarrow>
                         \<lparr>trace = [POST ''/v2/chains/solana'' (chainID, config)], resp = r,
                          deferred = 1, err = renderAPIResponse cli r\<rparr>))))"

definition CreateSolanaChain ::
  "('f, 't) golib \<Rightarrow> ('f, 't) Client \<Rightarrow> Context \<Rightarrow> 'f event list \<times> error option outcome"
where
  "CreateSolanaChain L cli c = return_from cli (CreateSolanaChain_body L cli c)"

subsection \<open>Configuring a chain\<close>

text \<open>
  \<^verbatim>\<open>strings.SplitN(arg, "=", 2)\<close>: the text before the first \<^verbatim>\<open>=\<close> and the text after it, or
  the argument alone when it has no \<^verbatim>\<open>=\<close>.
\<close>

definition strings_SplitN :: "string \<Rightarrow> string list" where
  "strings_SplitN arg =
     (if CHR ''='' \<in> set arg
      then [takeWhile (\<lambda>ch. ch \<noteq> CHR ''='') arg, tl (dropWhile (\<lambda>ch. ch \<noteq> CHR ''='') arg)]
      else [arg])"

text \<open>The value of one override: the decoded value, or the text itself when decoding fails.\<close>

definition override_value :: "('f, 't) golib \<Rightarrow> string \<Rightarrow> 'f govalue" where
  "override_value L raw =
     (case json_Unmarshal L raw of
        Some j \<Rightarrow> of_json j
      | None \<Rightarrow> JString raw)"

text \<open>
  The loop over the arguments. \<open>params\<close> is the Go map built so far; assigning to a key
  is \<open>AList.update\<close>.
\<close>

fun parse_params ::
  "('f, 't) golib \<Rightarrow> string list \<Rightarrow> (string \<times> 'f govalue) list \<Rightarrow> error + (string \<times> 'f govalue) list"
where
  "parse_params L [] params = Inr params"
| "parse_params L (arg # args) params =
     (let parts = strings_SplitN arg in
      if length parts \<noteq> 2 then Inl (Err (''invalid parameter: '' @ arg))
      else
        let v = override_value L (parts ! 1)
        in parse_params L args (AList.update (parts ! 0) v params))"

text \<open>
  \<^verbatim>\<open>json.Unmarshal(rawUpdates, &config)\<close> into the existing map: an object stores each of
  its members under its key and keeps the other entries, \<^verbatim>\<open>null\<close> makes the map nil
  (the empty list here), anything else is an \<^verbatim>\<open>UnmarshalTypeError\<close>.
\<close>

fun store_members ::
  "(string \<times> 'f json) list \<Rightarrow> (string \<times> 'f json) list \<Rightarrow> (string \<times> 'f json) list"
where
  "store_members [] config = config"
| "store_members ((k, j) # kjs) config = store_members kjs (AList.update k j config)"

definition UnmarshalTypeError :: "string \<Rightarrow> error" where
  "UnmarshalTypeError kind =
     Err (''json: cannot unmarshal '' @ kind @ '' into Go value of type map[string]interface {}'')"

fun json_Unmarshal_map ::
  "'f json \<Rightarrow> (string \<times> 'f json) list \<Rightarrow> error + (string \<times> 'f json) list"
where
  "json_Unmarshal_map (JObject kjs) config = Inr (store_members kjs config)"
| "json_Unmarshal_map JNull config = Inr []"
| "json_Unmarshal_map (JBool b) config = Inl (UnmarshalTypeError ''bool'')"
| "json_Unmarshal_map (JNumber x) config = Inl (UnmarshalTypeError ''number'')"
| "json_Unmarshal_map (JString s) config = Inl (UnmarshalTypeError ''string'')"
| "json_Unmarshal_map (JArray js) config = Inl (UnmarshalTypeError ''array'')"

text \<open>
  Lines 161 to 188 of the command: the new key-value pairs are parsed, serialised to a
  partial JSON map and deserialised into the old configuration.
\<close>

definition merge_overrides ::
  "('f, 't) golib \<Rightarrow> string list \<Rightarrow> (string \<times> 'f json) list \<Rightarrow> error + (string \<times> 'f json) list"
where
  "merge_overrides L args config =
     (case parse_params L args [] of
        Inl e \<Rightarrow> Inl e
      | Inr params \<Rightarrow>
          (case json_Marshal (JObject params) of
             Inl e \<Rightarrow> Inl e
           | Inr rawUpdates \<Rightarrow> json_Unmarshal_map rawUpdates config))"

definition chain_path :: "string \<Rightarrow> string" where
  "chain_path chainID = ''/v2/chains/solana/'' @ chainID"

definition ConfigureSolanaChain_body ::
  "('f, 't) golib \<Rightarrow> ('f, 't) Client \<Rightarrow> Context \<Rightarrow> 'f frame"
where
  "ConfigureSolanaChain_body L cli c =
     (let chainID = id_flag c in
      if chainID = [] then
        \<lparr>trace = [], resp = None, deferred = 0,
         err = errorOut (Some (Err
           ''missing chain ID (usage: chainlink solana chains configure [-id string] [key1=value1 key2=value2 ...])''))\<rparr>
      else if \<not> Present (Args c) then
        \<lparr>trace = [], resp = None, deferred = 0,
         err = errorOut (Some (Err
           ''must pass in at least one chain configuration parameters (usage: chainlink solana chains configure [-id string] [key1=value1 key2=value2 ...])''))\<rparr>
      else
        (case HTTP_Get cli (chain_path chainID) of
           (r, Some e) \<Rightarrow>
             \<lparr>trace = [GET (chain_path chainID)], resp = r, deferred = 0, err = errorOut (Some e)\<rparr>
         | (r, None) \<Rightarrow>
             (case deserializeAPIResponse cli r of
                Inl e \<Rightarrow>
                  \<lparr>trace = [GET (chain_path chainID)], resp = r, deferred = 1,
                   err = errorOut (Some e)\<rparr>
              | Inr chain \<Rightarrow>
                  (case merge_overrides L (Args c) (Config chain) of
                     Inl e \<Rightarrow>
                       \<lparr>trace = [GET (chain_path chainID)], resp = r, deferred = 1,
                        err = errorOut (Some e)\<rparr>
                   | Inr config \<Rightarrow>
                       (case json_Marshal
                               (JObject [(''enabled'', JBool (Enabled chain)),
                                         (''config'', of_json (JObject config))]) of
                          Inl e \<Rightarrow>
                            \<lparr>trace = [GET (chain_path chainID)], resp = r, deferred = 1,
                             err = errorOut (Some e)\<rparr>
                        | Inr body \<Rightarrow>
                            (case HTTP_Patch cli (chain_path chainID) body of
                               (r', Some e) \<Rightarrow>
                                 \<lparr>trace = [GET (chain_path chainID), PATCH (chain_path chainID) body],
                                  resp = r', deferred = 1, err = errorOut (Some e)\<rparr>
                             | (r', None) \<Rightarrow>
                                 \<lparr>trace = [GET (chain_path chainID), PATCH (chain_path chainID) body],
                                  resp = r', deferred = 2,
                                  err = renderAPIResponse cli r'\<rparr>))))))"

definition ConfigureSolanaChain ::
  "('f, 't) golib \<Rightarrow> ('f, 't) Client \<Rightarrow> Context \<Rightarrow> 'f event list \<times> error option outcome"
where
  "ConfigureSolanaChain L cli c = return_from cli (ConfigureSolanaChain_body L cli c)"

subsection \<open>Reading an override list\<close>

text \<open>
  The reading of an override list that the properties below are stated in: a token is
  malformed when it has no \<^verbatim>\<open>=\<close>; the key of a token is the text before its first \<^verbatim>\<open>=\<close>
  and its raw value the text after it; the override of a key is the value of the last
  token with that key. The fields of a document are the Go values it holds under its
  keys.
\<close>

definition document_fields :: "(string \<times> 'f json) list \<Rightarrow> string \<Rightarrow> 'f govalue option" where
  "document_fields doc k = map_option of_json (map_of doc k)"

definition malformed :: "string \<Rightarrow> bool" where
  "malformed arg = (CHR ''='' \<notin> set arg)"

definition override_key :: "string \<Rightarrow> string" where
  "override_key arg = takeWhile (\<lambda>ch. ch \<noteq> CHR ''='') arg"

definition override_raw :: "string \<Rightarrow> string" where
  "override_raw arg = tl (dropWhile (\<lambda>ch. ch \<noteq> CHR ''='') arg)"

definition last_override :: "('f, 't) golib \<Rightarrow> string list \<Rightarrow> string \<Rightarrow> 'f govalue option" where
  "last_override L args k =
     (case filter (\<lambda>arg. override_key arg = k) args of
        [] \<Rightarrow> None
      | a # as \<Rightarrow> Some (override_value L (override_raw (last (a # as)))))"

subsection \<open>A sample environment\<close>

text \<open>
  One concrete library, client and resource, on which the theorems below are
  instantiated. Numbers are integers and times are held as their text. The decoder of
  the sample library knows the literals \<^verbatim>\<open>null\<close>, \<^verbatim>\<open>true\<close>, \<^verbatim>\<open>false\<close>, \<^verbatim>\<open>42\<close> and \<^verbatim>\<open>5\<close> and
  rejects every other text.
\<close>

definition sample_Unmarshal :: "string \<Rightarrow> int json option" where
  "sample_Unmarshal s =
     (if s = ''null'' then Some JNull
      else if s = ''true'' then Some (JBool True)
      else if s = ''false'' then Some (JBool False)
      else if s = ''42'' then Some (JNumber 42)
      else if s = ''5'' then Some (JNumber 5)
      else None)"

definition sample_Indent :: "int json \<Rightarrow> string" where
  "sample_Indent j = (if j = JObject [] then ''{}'' else ''{...}'')"

definition sample_lib :: "(int, string) golib" where
  "sample_lib =
     \<lparr>json_Unmarshal = sample_Unmarshal,
      json_Indent = sample_Indent,
      json_Compact = (\<lambda>s. Inr s),
      time_String = (\<lambda>t. t)\<rparr>"

definition sample_chain :: "(int, string) SolanaChainResource" where
  "sample_chain =
     \<lparr>ID = ''sol-1'', Enabled = True,
      Config = [(''url'', JString ''http://a''), (''timeout'', JNumber 5)],
      CreatedAt = ''2022-03-01 10:00:00 +0000 UTC'',
      UpdatedAt = ''2022-03-02 10:00:00 +0000 UTC''\<rparr>"

definition other_chain :: "(int, string) SolanaChainResource" where
  "other_chain =
     \<lparr>ID = ''sol-2'', Enabled = False,
      Config = [],
      CreatedAt = ''2022-03-03 10:00:00 +0000 UTC'',
      UpdatedAt = ''2022-03-04 10:00:00 +0000 UTC''\<rparr>"

definition sample_sink :: RendererTable where
  "sample_sink = \<lparr>Writer = \<lparr>written = [], failing = False\<rparr>\<rparr>"

definition failing_sink :: RendererTable where
  "failing_sink = \<lparr>Writer = \<lparr>written = [], failing = True\<rparr>\<rparr>"

text \<open>
  A client whose calls all succeed, and one on which rendering the response and
  closing a body fail.
\<close>

definition sample_client :: "(int, string) Client" where
  "sample_client =
     \<lparr>HTTP_Get = (\<lambda>path. (Some (Response 1), None)),
      HTTP_Post = (\<lambda>path body. (Some (Response 3), None)),
      HTTP_Patch = (\<lambda>path body. (Some (Response 2), None)),
      Body_Close = (\<lambda>r n. None),
      deserializeAPIResponse = (\<lambda>r. Inr sample_chain),
      renderAPIResponse = (\<lambda>r. None),
      getBufferFromJSON = (\<lambda>s. Inr s)\<rparr>"

definition failing_client :: "(int, string) Client" where
  "failing_client =
     sample_client
       \<lparr>Body_Close := (\<lambda>r n. Some (Err ''close failed'')),
        renderAPIResponse := (\<lambda>r. Some (Err ''unexpected response''))\<rparr>"

text \<open>
  A client on which the PATCH fails in transport: no response comes back, only the
  error. Closing a body fails on it as well.
\<close>

definition patch_down_client :: "(int, string) Client" where
  "patch_down_client =
     sample_client
       \<lparr>HTTP_Patch := (\<lambda>path body. (None, Some (Err ''connection refused''))),
        Body_Close := (\<lambda>r n. Some (Err ''close failed''))\<rparr>"

definition configure_context :: Context where
  "configure_context = \<lparr>id_flag = ''sol-1'', Args = [''url=http://b'']\<rparr>"

definition malformed_context :: Context where
  "malformed_context = \<lparr>id_flag = ''sol-1'', Args = [''timeout'']\<rparr>"

definition create_context :: Context where
  "create_context = \<lparr>id_flag = ''sol-3'', Args = [''{}'']\<rparr>"

section \<open>Properties\<close>

subsection \<open>Marshalling\<close>

lemma marshal_decoded:
  "decoded (v :: 'f govalue) \<Longrightarrow> \<exists>j. json_Marshal v = Inr j"
  "decoded_elems (vs :: 'f govalue list) \<Longrightarrow> \<exists>js. marshal_elems vs = Inr js"
  "decoded_members (kvs :: (string \<times> 'f govalue) list) \<Longrightarrow> \<exists>kjs. marshal_members kvs = Inr kjs"
  by (induction v and vs and kvs rule: json_Marshal_marshal_elems_marshal_members.induct) auto

lemma marshal_inverse:
  "json_Marshal (v :: 'f govalue) = Inr j \<Longrightarrow> of_json j = v"
  "marshal_elems (vs :: 'f govalue list) = Inr js \<Longrightarrow> of_elems js = vs"
  "marshal_members (kvs :: (string \<times> 'f govalue) list) = Inr kjs \<Longrightarrow> of_members kjs = kvs"
  by (induction v and vs and kvs arbitrary: j and js and kjs
        rule: json_Marshal_marshal_elems_marshal_members.induct)
     (auto split: sum.splits)

lemma marshal_of_json:
  "json_Marshal (of_json (j :: 'f json)) = Inr j"
  "marshal_elems (of_elems (js :: 'f json list)) = Inr js"
  "marshal_members (of_members (kjs :: (string \<times> 'f json) list)) = Inr kjs"
  by (induction j and js and kjs rule: of_json_of_elems_of_members.induct) simp_all

lemma decoded_of_json:
  "decoded (of_json (j :: 'f json))"
  "decoded_elems (of_elems (js :: 'f json list))"
  "decoded_members (of_members (kjs :: (string \<times> 'f json) list))"
  by (induction j and js and kjs rule: of_json_of_elems_of_members.induct) simp_all

lemma marshal_fails:
  "\<not> decoded (v :: 'f govalue) \<Longrightarrow> \<exists>e. json_Marshal v = Inl e"
  "\<not> decoded_elems (vs :: 'f govalue list) \<Longrightarrow> \<exists>e. marshal_elems vs = Inl e"
  "\<not> decoded_members (kvs :: (string \<times> 'f govalue) list) \<Longrightarrow> \<exists>e. marshal_members kvs = Inl e"
  by (induction v and vs and kvs rule: json_Marshal_marshal_elems_marshal_members.induct)
     (auto split: sum.splits)

text \<open>
  So \<^verbatim>\<open>json.Marshal\<close> has a failing branch, and it is taken exactly on the values that
  are not decoded; the decoded values are the values of JSON texts.
\<close>

lemma marshal_succeeds_iff: "(\<exists>j. json_Marshal v = Inr j) \<longleftrightarrow> decoded v"
proof
  assume "\<exists>j. json_Marshal v = Inr j"
  then show "decoded v"
    using marshal_fails(1) [of v] by (cases "decoded v") auto
next
  assume "decoded v"
  then show "\<exists>j. json_Marshal v = Inr j" by (rule marshal_decoded(1))
qed

lemma decoded_iff: "decoded v \<longleftrightarrow> (\<exists>j. v = of_json j)"
  using marshal_decoded(1) [of v] marshal_inverse(1) [of v] decoded_of_json(1) by metis

lemma marshal_params:
  assumes "decoded_members params"
  shows "\<exists>kjs. json_Marshal (JObject params) = Inr (JObject kjs) \<and> of_members kjs = params"
proof -
  obtain kjs where k: "marshal_members params = Inr kjs"
    using marshal_decoded(3) [OF assms] by blast
  then have "of_members kjs = params" by (rule marshal_inverse(3))
  with k show ?thesis by simp
qed

lemma MarshalIndent_document:
  "json_MarshalIndent L (of_json (JObject doc)) = Inr (json_Indent L (JObject doc))"
  by (simp only: json_MarshalIndent_def marshal_of_json(1) sum.case)

subsection \<open>Rendering\<close>

lemma ToRow_returns:
  "ToRow L p =
     Returned [GetID p, if Enabled p then ''true'' else ''false'',
               json_Indent L (JObject (Config p)),
               time_String L (CreatedAt p), time_String L (UpdatedAt p)]"
  unfolding ToRow_def MarshalIndent_document by (cases "Enabled p") simp_all

lemma append_rows_returns:
  "\<exists>rs. append_rows L ps rows = Returned (rows @ rs) \<and> map (ToRow L) ps = map Returned rs"
proof (induction ps arbitrary: rows)
  case Nil
  show ?case by simp
next
  case (Cons p ps)
  obtain row where row: "ToRow L p = Returned row"
    using ToRow_returns [of L p] by blast
  obtain rs where "append_rows L ps (rows @ [row]) = Returned ((rows @ [row]) @ rs)"
      and "map (ToRow L) ps = map Returned rs"
    using Cons.IH [of "rows @ [row]"] by auto
  with row have "append_rows L (p # ps) rows = Returned (rows @ (row # rs)) \<and>
      map (ToRow L) (p # ps) = map Returned (row # rs)" by simp
  then show ?case by blast
qed

lemma single_RenderTable_returns:
  "\<exists>row. ToRow L p = Returned row \<and>
         SolanaChainPresenter_RenderTable L p rt =
           Returned (renderList headers [row] (Writer rt), None)"
proof -
  obtain row where "ToRow L p = Returned row"
    using ToRow_returns [of L p] by blast
  then show ?thesis by (simp add: SolanaChainPresenter_RenderTable_def)
qed

lemma RenderTable_returns:
  "\<exists>rows. map (ToRow L) ps = map Returned rows \<and>
          SolanaChainPresenters_RenderTable L ps rt =
            Returned (renderList headers rows (Writer rt), None)"
proof -
  obtain rows where "append_rows L ps [] = Returned ([] @ rows)"
      and "map (ToRow L) ps = map Returned rows"
    using append_rows_returns [of L ps "[]"] by blast
  then show ?thesis by (auto simp: SolanaChainPresenters_RenderTable_def)
qed

text \<open>
  C5: for every chain resource (its configuration being a decoded document), \<open>ToRow\<close>
  returns exactly five strings, in this order: the identifier, the enabled flag as
  \<^verbatim>\<open>true\<close> or \<^verbatim>\<open>false\<close>, the indented JSON text of the configuration document, the
  created timestamp and the updated timestamp.
\<close>

theorem ToRow_five_columns:
  "\<exists>row. ToRow L p = Returned row \<and> length row = 5 \<and>
         row = [GetID p, if Enabled p then ''true'' else ''false'',
                json_Indent L (JObject (Config p)),
                time_String L (CreatedAt p), time_String L (UpdatedAt p)]"
  by (simp add: ToRow_returns)

theorem ToRow_five_columns_witness:
  "ToRow sample_lib sample_chain =
     Returned [''sol-1'', ''true'', ''{...}'',
               ''2022-03-01 10:00:00 +0000 UTC'', ''2022-03-02 10:00:00 +0000 UTC''] \<and>
   ToRow sample_lib other_chain =
     Returned [''sol-2'', ''false'', ''{}'',
               ''2022-03-03 10:00:00 +0000 UTC'', ''2022-03-04 10:00:00 +0000 UTC'']"
  using ToRow_five_columns [of sample_lib sample_chain] ToRow_five_columns [of sample_lib other_chain]
  by (simp add: sample_chain_def other_chain_def sample_lib_def sample_Indent_def GetID_def)

text \<open>
  C9: the configuration of a resource is a document that was decoded as structured
  data, and encoding such a document never fails. So the branch of \<open>ToRow\<close> that panics
  on an encoding error is never taken: \<open>ToRow\<close> returns its row, and \<open>RenderTable\<close>, of one
  resource or of a collection, returns as well.
\<close>

theorem rendering_never_panics:
  "json_MarshalIndent L (of_json (JObject (Config p))) = Inr (json_Indent L (JObject (Config p))) \<and>
   (\<exists>row. ToRow L p = Returned row) \<and>
   (\<exists>out. SolanaChainPresenter_RenderTable L p rt = Returned out) \<and>
   (\<exists>out. SolanaChainPresenters_RenderTable L ps rt = Returned out)"
  using MarshalIndent_document [of L "Config p"] ToRow_returns [of L p]
    single_RenderTable_returns [of L p rt] RenderTable_returns [of L ps rt]
  by auto

text \<open>
  C6: for a collection of \<open>n\<close> resources, \<open>RenderTable\<close> calls \<^verbatim>\<open>renderList\<close> once, with the
  header row \<^verbatim>\<open>ID, Enabled, Config, Created, Updated\<close> and exactly \<open>n\<close> data rows, the \<open>i\<close>-th
  being the row of the \<open>i\<close>-th member: the order of the collection is kept. So what the
  sink receives is the header row once, followed by the \<open>n\<close> rows in that order.
\<close>

theorem RenderTable_header_then_rows:
  "\<exists>rows w. SolanaChainPresenters_RenderTable L ps rt = Returned (w, None) \<and>
           length rows = length ps \<and>
           (\<forall>i<length ps. ToRow L (ps ! i) = Returned (rows ! i)) \<and>
           w = renderList [''ID'', ''Enabled'', ''Config'', ''Created'', ''Updated''] rows (Writer rt) \<and>
           (\<not> failing (Writer rt) \<longrightarrow>
              written w = written (Writer rt) @
                [''ID'', ''Enabled'', ''Config'', ''Created'', ''Updated''] # rows)"
proof -
  obtain rows where m: "map (ToRow L) ps = map Returned rows"
      and r: "SolanaChainPresenters_RenderTable L ps rt =
                Returned (renderList headers rows (Writer rt), None)"
    using RenderTable_returns [of L ps rt] by blast
  have len: "length rows = length ps"
    using m by (metis length_map)
  have nth: "\<forall>i<length ps. ToRow L (ps ! i) = Returned (rows ! i)"
  proof (intro allI impI)
    fix i assume i: "i < length ps"
    have "map (ToRow L) ps ! i = map Returned rows ! i" using m by simp
    then show "ToRow L (ps ! i) = Returned (rows ! i)" using i len by simp
  qed
  have "\<not> failing (Writer rt) \<longrightarrow>
          written (renderList headers rows (Writer rt)) = written (Writer rt) @
            [''ID'', ''Enabled'', ''Config'', ''Created'', ''Updated''] # rows"
    by (simp add: renderList_def headers_def)
  moreover have "renderList headers rows (Writer rt) =
      renderList [''ID'', ''Enabled'', ''Config'', ''Created'', ''Updated''] rows (Writer rt)"
    by (simp add: headers_def)
  ultimately show ?thesis using r len nth by metis
qed

theorem RenderTable_header_then_rows_witness:
  "\<not> failing (Writer sample_sink) \<and>
   (\<exists>w. SolanaChainPresenters_RenderTable sample_lib [sample_chain, other_chain] sample_sink
           = Returned (w, None) \<and>
      written w =
        [[''ID'', ''Enabled'', ''Config'', ''Created'', ''Updated''],
         [''sol-1'', ''true'', ''{...}'',
          ''2022-03-01 10:00:00 +0000 UTC'', ''2022-03-02 10:00:00 +0000 UTC''],
         [''sol-2'', ''false'', ''{}'',
          ''2022-03-03 10:00:00 +0000 UTC'', ''2022-03-04 10:00:00 +0000 UTC'']])"
proof -
  have s: "\<not> failing (Writer sample_sink)" "written (Writer sample_sink) = []"
    by (simp_all add: sample_sink_def)
  have r0: "ToRow sample_lib sample_chain =
     Returned [''sol-1'', ''true'', ''{...}'',
               ''2022-03-01 10:00:00 +0000 UTC'', ''2022-03-02 10:00:00 +0000 UTC'']"
    and r1: "ToRow sample_lib other_chain =
     Returned [''sol-2'', ''false'', ''{}'',
               ''2022-03-03 10:00:00 +0000 UTC'', ''2022-03-04 10:00:00 +0000 UTC'']"
    by (simp_all add: ToRow_returns sample_chain_def other_chain_def sample_lib_def
          sample_Indent_def GetID_def)
  obtain rows w where
    w: "SolanaChainPresenters_RenderTable sample_lib [sample_chain, other_chain] sample_sink
       = Returned (w, None)"
    and len: "length rows = length [sample_chain, other_chain]"
    and nth: "\<forall>i<length [sample_chain, other_chain].
        ToRow sample_lib ([sample_chain, other_chain] ! i) = Returned (rows ! i)"
    and wr: "written w = written (Writer sample_sink) @
       [''ID'', ''Enabled'', ''Config'', ''Created'', ''Updated''] # rows"
    using RenderTable_header_then_rows [of sample_lib "[sample_chain, other_chain]" sample_sink] s
    by blast
  have "rows ! 0 = [''sol-1'', ''true'', ''{...}'',
               ''2022-03-01 10:00:00 +0000 UTC'', ''2022-03-02 10:00:00 +0000 UTC'']"
    using nth r0 by auto
  moreover have "rows ! 1 = [''sol-2'', ''false'', ''{}'',
               ''2022-03-03 10:00:00 +0000 UTC'', ''2022-03-04 10:00:00 +0000 UTC'']"
    using nth r1 by auto
  moreover have "rows = [rows ! 0, rows ! 1]"
    using len by (cases rows; cases "tl rows") auto
  ultimately have "rows =
        [[''sol-1'', ''true'', ''{...}'',
          ''2022-03-01 10:00:00 +0000 UTC'', ''2022-03-02 10:00:00 +0000 UTC''],
         [''sol-2'', ''false'', ''{}'',
          ''2022-03-03 10:00:00 +0000 UTC'', ''2022-03-04 10:00:00 +0000 UTC'']]"
    by simp
  with w wr s show ?thesis by simp
qed

text \<open>
  C10: \<open>RenderTable\<close>, of one presenter or of a collection, returns nil for every
  presenter and every sink, also a sink to which writing fails: \<^verbatim>\<open>renderList\<close> has no
  result through which a failure could come back.
\<close>

theorem RenderTable_returns_nil:
  "(\<exists>w. SolanaChainPresenter_RenderTable L p rt = Returned (w, None)) \<and>
   (\<exists>w. SolanaChainPresenters_RenderTable L ps rt = Returned (w, None))"
  using single_RenderTable_returns [of L p rt] RenderTable_returns [of L ps rt] by blast

theorem RenderTable_returns_nil_witness:
  "failing (Writer failing_sink) \<and>
   SolanaChainPresenter_RenderTable sample_lib sample_chain failing_sink
     = Returned (Writer failing_sink, None) \<and>
   SolanaChainPresenters_RenderTable sample_lib [sample_chain, other_chain] failing_sink
     = Returned (Writer failing_sink, None)"
proof -
  have f: "failing (Writer failing_sink)"
    by (simp add: failing_sink_def)
  then have "\<And>hdr rows. renderList hdr rows (Writer failing_sink) = Writer failing_sink"
    by (simp add: renderList_def)
  then show ?thesis
    using f RenderTable_returns_nil [of sample_lib sample_chain failing_sink
        "[sample_chain, other_chain]"]
    by (auto simp: SolanaChainPresenter_RenderTable_def SolanaChainPresenters_RenderTable_def
          split: outcome.splits)
qed


subsection \<open>Parsing the overrides\<close>

lemma SplitN_well_formed:
  "\<not> malformed arg \<Longrightarrow> strings_SplitN arg = [override_key arg, override_raw arg]"
  by (simp add: strings_SplitN_def malformed_def override_key_def override_raw_def)

lemma SplitN_malformed:
  "malformed arg \<Longrightarrow> strings_SplitN arg = [arg]"
  by (simp add: strings_SplitN_def malformed_def)

lemma override_key_token:
  "CHR ''='' \<notin> set k \<Longrightarrow> override_key (k @ CHR ''='' # raw) = k"
  by (induction k) (auto simp: override_key_def)

lemma override_raw_token:
  "CHR ''='' \<notin> set k \<Longrightarrow> override_raw (k @ CHR ''='' # raw) = raw"
  by (induction k) (auto simp: override_raw_def)

lemma token_well_formed:
  "\<not> malformed (k @ CHR ''='' # raw)"
  by (simp add: malformed_def)

lemma parse_params_step:
  "\<not> malformed arg \<Longrightarrow>
   parse_params L (arg # args) params =
     parse_params L args
       (AList.update (override_key arg) (override_value L (override_raw arg)) params)"
  by (simp add: SplitN_well_formed)

lemma parse_params_malformed:
  "malformed arg \<Longrightarrow> parse_params L (arg # args) params = Inl (Err (''invalid parameter: '' @ arg))"
  by (simp add: SplitN_malformed)

lemma last_override_Cons:
  "last_override L (arg # args) k =
     (case last_override L args k of
        Some v \<Rightarrow> Some v
      | None \<Rightarrow> if override_key arg = k then Some (override_value L (override_raw arg)) else None)"
  by (simp add: last_override_def split: list.splits)

lemma decoded_override_value: "decoded (override_value L raw)"
  by (simp add: override_value_def decoded_of_json(1) split: option.splits)

lemma decoded_members_update:
  "decoded v \<Longrightarrow> decoded_members m \<Longrightarrow> decoded_members (AList.update k v m)"
  by (induction m) auto

lemma parse_params_well_formed:
  assumes "\<forall>arg\<in>set args. \<not> malformed arg"
  shows "\<exists>params. parse_params L args acc = Inr params \<and>
           (\<forall>k. map_of params k =
                  (case last_override L args k of Some v \<Rightarrow> Some v | None \<Rightarrow> map_of acc k)) \<and>
           (distinct (map fst acc) \<longrightarrow> distinct (map fst params)) \<and>
           (decoded_members acc \<longrightarrow> decoded_members params)"
  using assms
proof (induction args arbitrary: acc)
  case Nil
  show ?case by (simp add: last_override_def)
next
  case (Cons arg args)
  let ?acc = "AList.update (override_key arg) (override_value L (override_raw arg)) acc"
  have step: "parse_params L (arg # args) acc = parse_params L args ?acc"
    using Cons.prems by (simp add: parse_params_step del: parse_params.simps)
  obtain params where p: "parse_params L args ?acc = Inr params"
      and m: "\<forall>k. map_of params k =
                (case last_override L args k of Some v \<Rightarrow> Some v | None \<Rightarrow> map_of ?acc k)"
      and d: "distinct (map fst ?acc) \<longrightarrow> distinct (map fst params)"
      and e: "decoded_members ?acc \<longrightarrow> decoded_members params"
    using Cons.IH [of ?acc] Cons.prems by auto
  have "\<forall>k. map_of params k =
          (case last_override L (arg # args) k of Some v \<Rightarrow> Some v | None \<Rightarrow> map_of acc k)"
    using m by (auto simp: last_override_Cons update_conv' split: option.splits)
  moreover have "distinct (map fst acc) \<longrightarrow> distinct (map fst params)"
    using d by (simp add: distinct_update)
  moreover have "decoded_members acc \<longrightarrow> decoded_members params"
    using e by (simp add: decoded_members_update decoded_override_value)
  ultimately show ?case using step p by simp
qed

lemma parse_params_first_malformed:
  "find malformed args = Some arg \<Longrightarrow>
   parse_params L args acc = Inl (Err (''invalid parameter: '' @ arg))"
proof (induction args arbitrary: acc)
  case Nil
  then show ?case by simp
next
  case (Cons a args)
  show ?case
  proof (cases "malformed a")
    case True
    with Cons.prems show ?thesis by (simp add: parse_params_malformed del: parse_params.simps)
  next
    case False
    with Cons.prems have "find malformed args = Some arg" by simp
    with False Cons.IH show ?thesis by (simp add: parse_params_step del: parse_params.simps)
  qed
qed

subsection \<open>Merging into the configuration\<close>

lemma fst_of_members: "map fst (of_members kjs) = map fst kjs"
  by (induction kjs) auto

lemma map_of_of_members:
  "map_of (of_members kjs) k = map_option of_json (map_of kjs k)"
  by (induction kjs) auto

lemma map_of_store_members:
  "distinct (map fst kjs) \<Longrightarrow>
   map_of (store_members kjs config) k =
     (case map_of kjs k of Some j \<Rightarrow> Some j | None \<Rightarrow> map_of config k)"
proof (induction kjs arbitrary: config)
  case Nil
  show ?case by simp
next
  case (Cons kj kjs)
  obtain k' j' where kj: "kj = (k', j')" by (cases kj)
  have "k' \<notin> fst ` set kjs" and "distinct (map fst kjs)"
    using Cons.prems by (simp_all add: kj)
  then have "map_of kjs k' = None" by (simp add: map_of_eq_None_iff)
  with Cons.IH [OF \<open>distinct (map fst kjs)\<close>, of "AList.update k' j' config"]
  show ?case by (auto simp: kj update_conv' split: option.splits)
qed

lemma store_members_same:
  "(\<And>k j. (k, j) \<in> set kjs \<Longrightarrow> map_of config k = Some j) \<Longrightarrow>
   store_members kjs config = config"
proof (induction kjs)
  case Nil
  show ?case by simp
next
  case (Cons kj kjs)
  obtain k j where kj: "kj = (k, j)" by (cases kj)
  have "map_of config k = Some j"
    using Cons.prems [of k j] by (simp add: kj)
  then have "AList.update k j config = config"
    by (rule update_triv)
  moreover have "store_members kjs config = config"
  proof (rule Cons.IH)
    fix k' j' assume "(k', j') \<in> set kjs"
    then show "map_of config k' = Some j'"
      using Cons.prems [of k' j'] by simp
  qed
  ultimately show ?case by (simp add: kj)
qed

lemma store_members_twice:
  assumes "distinct (map fst kjs)"
  shows "store_members kjs (store_members kjs config) = store_members kjs config"
proof (rule store_members_same)
  fix k j assume "(k, j) \<in> set kjs"
  then have "map_of kjs k = Some j" using assms by simp
  then show "map_of (store_members kjs config) k = Some j"
    by (simp add: map_of_store_members [OF assms])
qed

lemma merge_overrides_well_formed:
  assumes "\<forall>arg\<in>set args. \<not> malformed arg"
  shows "\<exists>kjs. parse_params L args [] = Inr (of_members kjs) \<and>
           distinct (map fst kjs) \<and>
           (\<forall>k. map_of (of_members kjs) k = last_override L args k) \<and>
           (\<forall>config. merge_overrides L args config = Inr (store_members kjs config))"
proof -
  obtain params where p: "parse_params L args [] = Inr params"
      and m: "\<forall>k. map_of params k =
                (case last_override L args k of Some v \<Rightarrow> Some v | None \<Rightarrow> map_of [] k)"
      and d: "distinct (map fst params)" and e: "decoded_members params"
    using parse_params_well_formed [OF assms, of L "[]"] by auto
  obtain kjs where k: "json_Marshal (JObject params) = Inr (JObject kjs)"
      and o: "of_members kjs = params"
    using marshal_params [OF e] by blast
  have "distinct (map fst kjs)" using d o fst_of_members [of kjs] by simp
  moreover have "\<forall>k. map_of (of_members kjs) k = last_override L args k"
    using m o by (auto split: option.splits)
  moreover have "\<forall>config. merge_overrides L args config = Inr (store_members kjs config)"
    using p k by (simp add: merge_overrides_def)
  ultimately show ?thesis using p o by blast
qed

lemma merge_overrides_fields:
  assumes "\<forall>arg\<in>set args. \<not> malformed arg"
  shows "\<exists>doc. merge_overrides L args config = Inr doc \<and>
           (\<forall>k. document_fields doc k =
                  (case last_override L args k of
                     Some v \<Rightarrow> Some v
                   | None \<Rightarrow> document_fields config k))"
proof -
  obtain kjs where d: "distinct (map fst kjs)"
      and m: "\<forall>k. map_of (of_members kjs) k = last_override L args k"
      and r: "\<forall>config. merge_overrides L args config = Inr (store_members kjs config)"
    using merge_overrides_well_formed [OF assms, of L] by blast
  have "\<forall>k. document_fields (store_members kjs config) k =
          (case last_override L args k of
             Some v \<Rightarrow> Some v
           | None \<Rightarrow> document_fields config k)"
  proof
    fix k
    have "last_override L args k = map_option of_json (map_of kjs k)"
      using m by (simp add: map_of_of_members)
    then show "document_fields (store_members kjs config) k =
          (case last_override L args k of
             Some v \<Rightarrow> Some v
           | None \<Rightarrow> document_fields config k)"
      by (simp add: document_fields_def map_of_store_members [OF d] split: option.splits)
  qed
  with r show ?thesis by simp
qed

lemma merge_overrides_malformed:
  "find malformed args = Some arg \<Longrightarrow>
   merge_overrides L args config = Inl (Err (''invalid parameter: '' @ arg))"
  by (simp add: merge_overrides_def parse_params_first_malformed)


lemma last_override_token:
  assumes "CHR ''='' \<notin> set k" and "\<forall>arg\<in>set post. override_key arg \<noteq> k"
  shows "last_override L (pre @ (k @ CHR ''='' # raw) # post) k = Some (override_value L raw)"
proof -
  let ?tok = "k @ CHR ''='' # raw"
  let ?sel = "filter (\<lambda>arg. override_key arg = k)"
  have "?sel post = []"
    using assms(2) by (simp add: filter_empty_conv)
  then have sel: "?sel (pre @ ?tok # post) = ?sel pre @ [?tok]"
    using assms(1) by (simp add: override_key_token)
  obtain a as where cons: "?sel pre @ [?tok] = a # as"
    by (cases "?sel pre @ [?tok]") auto
  have "last (a # as) = ?tok"
    using cons by (metis last_snoc)
  then have "override_raw (last (a # as)) = raw"
    using override_raw_token [OF assms(1), of raw] by simp
  then show ?thesis
    unfolding last_override_def sel cons by simp
qed

text \<open>
  C1: for every configuration document and every override list without a malformed
  token, the merge gives a document in which each key named by an override holds the
  value of the last override with that key, and every other key holds what it held
  before (or is absent as before). In particular, with a decoder that rejects the text
  \<^verbatim>\<open>http://b\<close>, as \<^verbatim>\<open>encoding/json\<close> does, merging \<^verbatim>\<open>url=http://b\<close> into the document with
  \<^verbatim>\<open>url\<close> \<^verbatim>\<open>http://a\<close> and a numeric \<^verbatim>\<open>timeout\<close> replaces \<^verbatim>\<open>url\<close> and keeps \<^verbatim>\<open>timeout\<close>.
\<close>

theorem merge_replaces_named_fields:
  "((\<forall>arg\<in>set args. \<not> malformed arg) \<longrightarrow>
      (\<exists>doc. merge_overrides L args config = Inr doc \<and>
         (\<forall>k. document_fields doc k =
                (case last_override L args k of
                   Some v \<Rightarrow> Some v
                 | None \<Rightarrow> document_fields config k)))) \<and>
   (json_Unmarshal L ''http://b'' = None \<longrightarrow>
      merge_overrides L [''url=http://b'']
          [(''url'', JString ''http://a''), (''timeout'', JNumber timeout)]
        = Inr [(''url'', JString ''http://b''), (''timeout'', JNumber timeout)])"
proof (intro conjI impI)
  assume "\<forall>arg\<in>set args. \<not> malformed arg"
  then show "\<exists>doc. merge_overrides L args config = Inr doc \<and>
         (\<forall>k. document_fields doc k =
                (case last_override L args k of
                   Some v \<Rightarrow> Some v
                 | None \<Rightarrow> document_fields config k))"
    by (rule merge_overrides_fields)
next
  assume "json_Unmarshal L ''http://b'' = None"
  then show "merge_overrides L [''url=http://b'']
          [(''url'', JString ''http://a''), (''timeout'', JNumber timeout)]
        = Inr [(''url'', JString ''http://b''), (''timeout'', JNumber timeout)]"
    by (simp add: merge_overrides_def strings_SplitN_def override_value_def)
qed

theorem merge_replaces_named_fields_witness:
  "\<not> malformed ''url=http://b'' \<and> \<not> malformed ''timeout=42'' \<and> \<not> malformed ''url=http://c'' \<and>
   json_Unmarshal sample_lib ''http://b'' = None \<and>
   (\<exists>doc. merge_overrides sample_lib [''url=http://b'', ''timeout=42'', ''url=http://c'']
             [(''url'', JString ''http://a''), (''timeout'', JNumber 5),
              (''commitment'', JString ''confirmed'')] = Inr doc \<and>
      document_fields doc ''url'' = Some (JString ''http://c'') \<and>
      document_fields doc ''timeout'' = Some (JNumber (Finite 42)) \<and>
      document_fields doc ''commitment'' = Some (JString ''confirmed'') \<and>
      document_fields doc ''rpc'' = None) \<and>
   merge_overrides sample_lib [''url=http://b'']
       [(''url'', JString ''http://a''), (''timeout'', JNumber 5)]
     = Inr [(''url'', JString ''http://b''), (''timeout'', JNumber 5)]"
proof -
  let ?args = "[''url=http://b'', ''timeout=42'', ''url=http://c'']"
  let ?config = "[(''url'', JString ''http://a''), (''timeout'', JNumber (5::int)),
                  (''commitment'', JString ''confirmed'')]"
  have h: "\<forall>arg\<in>set ?args. \<not> malformed arg"
    by (simp add: malformed_def)
  have u: "json_Unmarshal sample_lib ''http://b'' = None"
    by (simp add: sample_lib_def sample_Unmarshal_def)
  note inst = merge_replaces_named_fields [of ?args sample_lib ?config 5]
  obtain doc where d: "merge_overrides sample_lib ?args ?config = Inr doc"
      and m: "\<forall>k. document_fields doc k =
                (case last_override sample_lib ?args k of
                   Some v \<Rightarrow> Some v
                 | None \<Rightarrow> document_fields ?config k)"
    using inst h by blast
  have c: "document_fields ?config ''commitment'' = Some (JString ''confirmed'')"
      "document_fields ?config ''rpc'' = None"
    by (simp_all add: document_fields_def)
  have "document_fields doc ''url'' = Some (JString ''http://c'')"
       "document_fields doc ''timeout'' = Some (JNumber (Finite 42))"
       "document_fields doc ''commitment'' = Some (JString ''confirmed'')"
       "document_fields doc ''rpc'' = None"
    by (simp_all add: m c last_override_def override_key_def override_raw_def override_value_def
          sample_lib_def sample_Unmarshal_def)
  with d h u inst show ?thesis by auto
qed

text \<open>
  C4: for every starting document and every override list without a malformed token,
  merging the same overrides into the result of the merge gives that result again.
\<close>

theorem merge_idempotent:
  assumes "\<forall>arg\<in>set args. \<not> malformed arg"
  shows "\<exists>doc. merge_overrides L args config = Inr doc \<and> merge_overrides L args doc = Inr doc"
proof -
  obtain kjs where d: "distinct (map fst kjs)"
      and r: "\<forall>config. merge_overrides L args config = Inr (store_members kjs config)"
    using merge_overrides_well_formed [OF assms, of L] by blast
  have "merge_overrides L args (store_members kjs config) = Inr (store_members kjs config)"
    using r store_members_twice [OF d, of config] by simp
  with r show ?thesis by blast
qed

theorem merge_idempotent_witness:
  "\<not> malformed ''url=http://b'' \<and> \<not> malformed ''rpc=null'' \<and>
   merge_overrides sample_lib [''url=http://b'', ''rpc=null''] (Config sample_chain)
     = Inr [(''url'', JString ''http://b''), (''timeout'', JNumber 5), (''rpc'', JNull)] \<and>
   merge_overrides sample_lib [''url=http://b'', ''rpc=null'']
       [(''url'', JString ''http://b''), (''timeout'', JNumber 5), (''rpc'', JNull)]
     = Inr [(''url'', JString ''http://b''), (''timeout'', JNumber 5), (''rpc'', JNull)]"
proof -
  let ?args = "[''url=http://b'', ''rpc=null'']"
  have h: "\<forall>arg\<in>set ?args. \<not> malformed arg"
    by (simp add: malformed_def)
  have first: "merge_overrides sample_lib ?args (Config sample_chain)
     = Inr [(''url'', JString ''http://b''), (''timeout'', JNumber 5), (''rpc'', JNull)]"
    by (simp add: merge_overrides_def strings_SplitN_def override_value_def sample_chain_def
          sample_lib_def sample_Unmarshal_def)
  show ?thesis
    using h first merge_idempotent [OF h, of sample_lib "Config sample_chain"] by auto
qed

text \<open>
  C3: in an override list without a malformed token, let \<^verbatim>\<open>k=raw\<close> be the last token with
  the key \<open>k\<close>. The value stored under \<open>k\<close>, in the parsed parameters and in the merged
  document, is the decoded value of \<open>raw\<close> when \<open>raw\<close> decodes as JSON, and the string
  \<open>raw\<close> itself otherwise. In particular, with a decoder that rejects the empty text
  and decodes \<^verbatim>\<open>null\<close> to null, as \<^verbatim>\<open>encoding/json\<close> does, \<^verbatim>\<open>k=\<close> stores the empty string and
  \<^verbatim>\<open>k=null\<close> stores an explicit null: the key stays in the document.
\<close>

theorem override_value_stored:
  assumes "\<forall>arg\<in>set (pre @ post). \<not> malformed arg"
    and "CHR ''='' \<notin> set k"
    and "\<forall>arg\<in>set post. override_key arg \<noteq> k"
  shows "\<exists>params doc.
           parse_params L (pre @ (k @ CHR ''='' # raw) # post) [] = Inr params \<and>
           merge_overrides L (pre @ (k @ CHR ''='' # raw) # post) config = Inr doc \<and>
           map_of params k =
             Some (case json_Unmarshal L raw of Some j \<Rightarrow> of_json j | None \<Rightarrow> JString raw) \<and>
           document_fields doc k =
             Some (case json_Unmarshal L raw of Some j \<Rightarrow> of_json j | None \<Rightarrow> JString raw) \<and>
           (raw = [] \<and> json_Unmarshal L [] = None \<longrightarrow>
              map_of params k = Some (JString []) \<and> document_fields doc k = Some (JString [])) \<and>
           (raw = ''null'' \<and> json_Unmarshal L ''null'' = Some JNull \<longrightarrow>
              map_of params k = Some JNull \<and> document_fields doc k = Some JNull)"
proof -
  let ?args = "pre @ (k @ CHR ''='' # raw) # post"
  let ?v = "case json_Unmarshal L raw of Some j \<Rightarrow> of_json j | None \<Rightarrow> JString raw"
  have wf: "\<forall>arg\<in>set ?args. \<not> malformed arg"
    using assms(1) token_well_formed [of k raw] by auto
  have lo: "last_override L ?args k = Some ?v"
    using last_override_token [OF assms(2,3), of L pre raw] by (simp add: override_value_def)
  obtain kjs where p: "parse_params L ?args [] = Inr (of_members kjs)"
      and m: "\<forall>k. map_of (of_members kjs) k = last_override L ?args k"
    using merge_overrides_well_formed [OF wf, of L] by blast
  obtain doc where d: "merge_overrides L ?args config = Inr doc"
      and f: "\<forall>k. document_fields doc k =
                (case last_override L ?args k of
                   Some v \<Rightarrow> Some v
                 | None \<Rightarrow> document_fields config k)"
    using merge_overrides_fields [OF wf, of L config] by blast
  have mp: "map_of (of_members kjs) k = Some ?v" using m lo by simp
  have md: "document_fields doc k = Some ?v" using f lo by simp
  have "raw = [] \<and> json_Unmarshal L [] = None \<longrightarrow>
          map_of (of_members kjs) k = Some (JString []) \<and> document_fields doc k = Some (JString [])"
    using mp md by auto
  moreover have "raw = ''null'' \<and> json_Unmarshal L ''null'' = Some JNull \<longrightarrow>
          map_of (of_members kjs) k = Some JNull \<and> document_fields doc k = Some JNull"
    using mp md by auto
  ultimately show ?thesis using p d mp md by blast
qed

theorem override_value_stored_witness:
  "\<not> malformed ''rpc=wss://x'' \<and> \<not> malformed ''mode=null'' \<and> \<not> malformed ''url='' \<and>
   CHR ''='' \<notin> set ''url'' \<and> CHR ''='' \<notin> set ''mode'' \<and> CHR ''='' \<notin> set ''rpc'' \<and>
   override_key ''mode=null'' \<noteq> ''rpc'' \<and> override_key ''url='' \<noteq> ''rpc'' \<and>
   override_key ''url='' \<noteq> ''mode'' \<and>
   json_Unmarshal sample_lib [] = None \<and>
   json_Unmarshal sample_lib ''null'' = Some JNull \<and>
   json_Unmarshal sample_lib ''wss://x'' = None \<and>
   (\<exists>doc. merge_overrides sample_lib [''rpc=wss://x'', ''mode=null'', ''url=''] (Config sample_chain)
             = Inr doc \<and>
      document_fields doc ''rpc'' = Some (JString ''wss://x'') \<and>
      document_fields doc ''mode'' = Some JNull \<and>
      document_fields doc ''url'' = Some (JString []))"
proof -
  let ?args = "[''rpc=wss://x'', ''mode=null'', ''url='']"
  have u: "json_Unmarshal sample_lib [] = None"
      "json_Unmarshal sample_lib ''null'' = Some JNull"
      "json_Unmarshal sample_lib ''wss://x'' = None"
    by (simp_all add: sample_lib_def sample_Unmarshal_def)
  have w: "\<not> malformed ''rpc=wss://x''" "\<not> malformed ''mode=null''" "\<not> malformed ''url=''"
    by (simp_all add: malformed_def)
  have k: "override_key ''mode=null'' \<noteq> ''rpc''" "override_key ''url='' \<noteq> ''rpc''"
      "override_key ''url='' \<noteq> ''mode''"
    by (simp_all add: override_key_def)
  have c: "CHR ''='' \<notin> set ''url''" "CHR ''='' \<notin> set ''mode''" "CHR ''='' \<notin> set ''rpc''"
    by simp_all
  have a1: "\<forall>arg\<in>set ([] @ [''mode=null'', ''url='']). \<not> malformed arg" using w by simp
  have a2: "\<forall>arg\<in>set ([''rpc=wss://x''] @ [''url='']). \<not> malformed arg" using w by simp
  have a3: "\<forall>arg\<in>set ([''rpc=wss://x'', ''mode=null''] @ []). \<not> malformed arg" using w by simp
  have b1: "\<forall>arg\<in>set [''mode=null'', ''url='']. override_key arg \<noteq> ''rpc''" using k by simp
  have b2: "\<forall>arg\<in>set [''url='']. override_key arg \<noteq> ''mode''" using k by simp
  have b3: "\<forall>arg\<in>set []. override_key arg \<noteq> ''url''" by simp
  obtain doc where d: "merge_overrides sample_lib ?args (Config sample_chain) = Inr doc"
      and r: "document_fields doc ''rpc'' = Some (JString ''wss://x'')"
    using override_value_stored [OF a1 c(3) b1, of sample_lib "''wss://x''" "Config sample_chain"] u
    by auto
  have "document_fields doc ''mode'' = Some JNull"
    using override_value_stored [OF a2 c(2) b2, of sample_lib "''null''" "Config sample_chain"] u d
    by auto
  moreover have "document_fields doc ''url'' = Some (JString [])"
    using override_value_stored [OF a3 c(1) b3, of sample_lib "[]" "Config sample_chain"] u d
    by auto
  ultimately show ?thesis using d r u w k c by blast
qed


subsection \<open>Returning through the deferred closes\<close>

lemma errorOut_Some: "\<exists>e'. errorOut (Some e) = Some e'"
  by simp

lemma run_deferred_nil:
  "run_deferred cli None (Suc d) n (tr, out) = (tr, Panic nil_dereference)"
  by (induction d arbitrary: n) simp_all

lemma run_deferred_trace:
  "fst (run_deferred cli (Some r) d n (tr, out)) = tr @ replicate d (CLOSE r)"
proof (induction d arbitrary: n tr out)
  case 0
  show ?case by simp
next
  case (Suc d)
  show ?case
    by (cases out) (simp_all add: Suc.IH replicate_app_Cons_same)
qed

lemma run_deferred_keeps_failure:
  "\<exists>e'. snd (run_deferred cli (Some r) d n (tr, Returned (Some e))) = Returned (Some e')"
proof (induction d arbitrary: n tr e)
  case 0
  show ?case by simp
next
  case (Suc d)
  show ?case
    by (cases "Body_Close cli r n") (simp_all add: Suc.IH)
qed

lemma run_deferred_extends:
  "\<exists>ms. snd (run_deferred cli (Some r) d n (tr, Returned (Some (MultiErr xs)))) =
          Returned (Some (MultiErr (xs @ ms)))"
proof (induction d arbitrary: n tr xs)
  case 0
  show ?case by simp
next
  case (Suc d)
  show ?case
  proof (cases "Body_Close cli r n")
    case None
    then show ?thesis using Suc.IH [of "Suc n" "tr @ [CLOSE r]" xs] by simp
  next
    case (Some cerr)
    obtain ms where "snd (run_deferred cli (Some r) d (Suc n) (tr @ [CLOSE r],
        Returned (Some (MultiErr (xs @ Errors cerr))))) = Returned (Some (MultiErr ((xs @ Errors cerr) @ ms)))"
      using Suc.IH [of "Suc n" "tr @ [CLOSE r]" "xs @ Errors cerr"] by blast
    then have "snd (run_deferred cli (Some r) (Suc d) n (tr, Returned (Some (MultiErr xs)))) =
        Returned (Some (MultiErr (xs @ (Errors cerr @ ms))))"
      using Some by simp
    then show ?thesis by blast
  qed
qed

lemma run_deferred_composite:
  "i < d \<Longrightarrow> Body_Close cli r (n + i) = Some cerr \<Longrightarrow>
   \<exists>ms ms'. snd (run_deferred cli (Some r) d n (tr, Returned (Some e))) =
              Returned (Some (MultiErr (Errors e @ ms @ Errors cerr @ ms')))"
proof (induction d arbitrary: i n tr e)
  case 0
  then show ?case by simp
next
  case (Suc d)
  show ?case
  proof (cases i)
    case 0
    then have c: "Body_Close cli r n = Some cerr" using Suc.prems by simp
    obtain ms' where "snd (run_deferred cli (Some r) d (Suc n) (tr @ [CLOSE r],
        Returned (Some (MultiErr (Errors e @ Errors cerr))))) =
        Returned (Some (MultiErr ((Errors e @ Errors cerr) @ ms')))"
      using run_deferred_extends [of cli r d "Suc n" "tr @ [CLOSE r]" "Errors e @ Errors cerr"]
      by blast
    then have "snd (run_deferred cli (Some r) (Suc d) n (tr, Returned (Some e))) =
        Returned (Some (MultiErr (Errors e @ [] @ Errors cerr @ ms')))"
      using c by simp
    then show ?thesis by blast
  next
    case (Suc i')
    then have i': "i' < d" and c: "Body_Close cli r (Suc n + i') = Some cerr"
      using Suc.prems by simp_all
    show ?thesis
    proof (cases "Body_Close cli r n")
      case None
      obtain ms ms' where "snd (run_deferred cli (Some r) d (Suc n) (tr @ [CLOSE r],
          Returned (Some e))) = Returned (Some (MultiErr (Errors e @ ms @ Errors cerr @ ms')))"
        using Suc.IH [OF i' c, of "tr @ [CLOSE r]" e] by blast
      then have "snd (run_deferred cli (Some r) (Suc d) n (tr, Returned (Some e))) =
          Returned (Some (MultiErr (Errors e @ ms @ Errors cerr @ ms')))"
        using None by simp
      then show ?thesis by blast
    next
      case (Some c0)
      obtain ms ms' where "snd (run_deferred cli (Some r) d (Suc n) (tr @ [CLOSE r],
          Returned (Some (MultiErr (Errors e @ Errors c0))))) =
          Returned (Some (MultiErr (Errors (MultiErr (Errors e @ Errors c0)) @ ms @ Errors cerr @ ms')))"
        using Suc.IH [OF i' c, of "tr @ [CLOSE r]" "MultiErr (Errors e @ Errors c0)"] by blast
      then have "snd (run_deferred cli (Some r) (Suc d) n (tr, Returned (Some e))) =
          Returned (Some (MultiErr (Errors e @ (Errors c0 @ ms) @ Errors cerr @ ms')))"
        using Some by simp
      then show ?thesis by blast
    qed
  qed
qed

lemma return_from_composite:
  assumes "err fr = Some e" and "resp fr = Some r" and "n < deferred fr"
    and "Body_Close cli r n = Some cerr"
  shows "\<exists>ms ms'. snd (return_from cli fr) =
           Returned (Some (MultiErr (Errors e @ ms @ Errors cerr @ ms')))"
  using run_deferred_composite [of n "deferred fr" cli r 0 cerr "trace fr" e] assms
  by (simp add: return_from_def)

lemma return_from_failure:
  assumes "err fr = Some e"
  shows "snd (return_from cli fr) \<noteq> Returned None"
proof (cases "resp fr")
  case None
  then show ?thesis
    using assms
    by (cases "deferred fr") (simp_all add: return_from_def run_deferred_nil del: run_deferred.simps(2))
next
  case (Some r)
  then show ?thesis
    using assms run_deferred_keeps_failure [of cli r "deferred fr" 0 "trace fr" e]
    by (auto simp: return_from_def)
qed

lemma return_from_trace:
  "\<exists>closes. fst (return_from cli fr) = trace fr @ closes \<and> (\<forall>ev\<in>set closes. \<exists>r. ev = CLOSE r)"
proof (cases "resp fr")
  case None
  then have "fst (return_from cli fr) = trace fr @ []"
    by (cases "deferred fr") (simp_all add: return_from_def run_deferred_nil del: run_deferred.simps(2))
  then show ?thesis by (metis empty_iff list.set(1))
next
  case (Some r)
  then have "fst (return_from cli fr) = trace fr @ replicate (deferred fr) (CLOSE r)"
    by (simp add: return_from_def run_deferred_trace)
  then show ?thesis by auto
qed


subsection \<open>The paths through Configure\<close>

lemma Marshal_PATCH_body:
  "json_Marshal (JObject [(''enabled'', JBool b), (''config'', of_json (JObject config))]) =
     Inr (JObject [(''enabled'', JBool b), (''config'', JObject config)])"
  using marshal_of_json(1) [of "JObject config"] by simp

lemma Configure_body_cases:
  "(\<exists>e. err (ConfigureSolanaChain_body L cli c) = Some e) \<or>
   (\<exists>r chain config r'.
      HTTP_Get cli (chain_path (id_flag c)) = (r, None) \<and>
      deserializeAPIResponse cli r = Inr chain \<and>
      merge_overrides L (Args c) (Config chain) = Inr config \<and>
      HTTP_Patch cli (chain_path (id_flag c))
          (JObject [(''enabled'', JBool (Enabled chain)), (''config'', JObject config)]) = (r', None) \<and>
      ConfigureSolanaChain_body L cli c =
        \<lparr>trace = [GET (chain_path (id_flag c)),
                  PATCH (chain_path (id_flag c))
                    (JObject [(''enabled'', JBool (Enabled chain)), (''config'', JObject config)])],
         resp = r', deferred = 2, err = renderAPIResponse cli r'\<rparr>)"
  unfolding ConfigureSolanaChain_body_def Let_def Marshal_PATCH_body
  by (auto split: prod.splits option.splits sum.splits)

lemma find_Some_Present: "find P args = Some arg \<Longrightarrow> Present args"
  by (cases args) (simp_all add: Present_def)

lemma Configure_body_malformed:
  assumes "id_flag c \<noteq> []" and "find malformed (Args c) = Some arg"
  shows "trace (ConfigureSolanaChain_body L cli c) = [GET (chain_path (id_flag c))]"
    and "HTTP_Get cli (chain_path (id_flag c)) = (r, None) \<Longrightarrow>
         deserializeAPIResponse cli r = Inr chain \<Longrightarrow>
         ConfigureSolanaChain_body L cli c =
           \<lparr>trace = [GET (chain_path (id_flag c))], resp = r, deferred = 1,
            err = Some (Err (''invalid parameter: '' @ arg))\<rparr>"
proof -
  have p: "Present (Args c)" using assms(2) by (rule find_Some_Present)
  have m: "\<And>config. merge_overrides L (Args c) config = Inl (Err (''invalid parameter: '' @ arg))"
    using assms(2) by (rule merge_overrides_malformed)
  show "trace (ConfigureSolanaChain_body L cli c) = [GET (chain_path (id_flag c))]"
    using assms(1) p m
    by (auto simp: ConfigureSolanaChain_body_def Let_def split: prod.splits option.splits sum.splits)
  show "ConfigureSolanaChain_body L cli c =
           \<lparr>trace = [GET (chain_path (id_flag c))], resp = r, deferred = 1,
            err = Some (Err (''invalid parameter: '' @ arg))\<rparr>"
    if "HTTP_Get cli (chain_path (id_flag c)) = (r, None)" "deserializeAPIResponse cli r = Inr chain"
    using that assms(1) p m by (simp add: ConfigureSolanaChain_body_def Let_def)
qed

text \<open>
  C2, as the code has it: when the \<^verbatim>\<open>id\<close> flag is set and some argument has no \<^verbatim>\<open>=\<close>,
  Configure first issues the GET of the current resource, and it never issues the
  PATCH: everything after the GET is a close. When the GET and the decoding of its
  response succeed, the command fails with the error \<^verbatim>\<open>invalid parameter\<close> naming the
  first such argument; with a body that closes cleanly this is the error returned.
\<close>

theorem malformed_override_after_GET:
  assumes "id_flag c \<noteq> []" and "find malformed (Args c) = Some arg"
  shows "(\<exists>closes. fst (ConfigureSolanaChain L cli c) = GET (chain_path (id_flag c)) # closes \<and>
            (\<forall>ev\<in>set closes. \<exists>r. ev = CLOSE r)) \<and>
         (\<forall>r chain. HTTP_Get cli (chain_path (id_flag c)) = (r, None) \<and>
              deserializeAPIResponse cli r = Inr chain \<longrightarrow>
            err (ConfigureSolanaChain_body L cli c) = Some (Err (''invalid parameter: '' @ arg)) \<and>
            snd (ConfigureSolanaChain L cli c) \<noteq> Returned None) \<and>
         (\<forall>x chain. HTTP_Get cli (chain_path (id_flag c)) = (Some x, None) \<and>
              deserializeAPIResponse cli (Some x) = Inr chain \<and> Body_Close cli x 0 = None \<longrightarrow>
            ConfigureSolanaChain L cli c =
              ([GET (chain_path (id_flag c)), CLOSE x],
               Returned (Some (Err (''invalid parameter: '' @ arg)))))"
proof (intro conjI allI impI)
  let ?fr = "ConfigureSolanaChain_body L cli c"
  obtain closes where "fst (return_from cli ?fr) = trace ?fr @ closes"
      and "\<forall>ev\<in>set closes. \<exists>r. ev = CLOSE r"
    using return_from_trace [of cli ?fr] by blast
  then show "\<exists>closes. fst (ConfigureSolanaChain L cli c) = GET (chain_path (id_flag c)) # closes \<and>
            (\<forall>ev\<in>set closes. \<exists>r. ev = CLOSE r)"
    using Configure_body_malformed(1) [OF assms, of L cli]
    by (simp add: ConfigureSolanaChain_def)
next
  fix r chain
  assume "HTTP_Get cli (chain_path (id_flag c)) = (r, None) \<and>
          deserializeAPIResponse cli r = Inr chain"
  then have fr: "ConfigureSolanaChain_body L cli c =
           \<lparr>trace = [GET (chain_path (id_flag c))], resp = r, deferred = 1,
            err = Some (Err (''invalid parameter: '' @ arg))\<rparr>"
    using Configure_body_malformed(2) [OF assms, of cli r chain L] by blast
  then show "err (ConfigureSolanaChain_body L cli c) = Some (Err (''invalid parameter: '' @ arg))"
    by simp
  then show "snd (ConfigureSolanaChain L cli c) \<noteq> Returned None"
    unfolding ConfigureSolanaChain_def by (rule return_from_failure)
next
  fix x chain
  assume "HTTP_Get cli (chain_path (id_flag c)) = (Some x, None) \<and>
          deserializeAPIResponse cli (Some x) = Inr chain \<and> Body_Close cli x 0 = None"
  then have fr: "ConfigureSolanaChain_body L cli c =
           \<lparr>trace = [GET (chain_path (id_flag c))], resp = Some x, deferred = 1,
            err = Some (Err (''invalid parameter: '' @ arg))\<rparr>"
      and cl: "Body_Close cli x 0 = None"
    using Configure_body_malformed(2) [OF assms, of cli "Some x" chain L] by blast+
  show "ConfigureSolanaChain L cli c =
              ([GET (chain_path (id_flag c)), CLOSE x],
               Returned (Some (Err (''invalid parameter: '' @ arg))))"
    by (simp add: ConfigureSolanaChain_def return_from_def fr cl)
qed

theorem malformed_override_after_GET_witness:
  "id_flag malformed_context \<noteq> [] \<and>
   find malformed (Args malformed_context) = Some ''timeout'' \<and>
   HTTP_Get sample_client (chain_path (id_flag malformed_context)) = (Some (Response 1), None) \<and>
   deserializeAPIResponse sample_client (Some (Response 1)) = Inr sample_chain \<and>
   Body_Close sample_client (Response 1) 0 = None \<and>
   ConfigureSolanaChain sample_lib sample_client malformed_context =
     ([GET ''/v2/chains/solana/sol-1'', CLOSE (Response 1)],
      Returned (Some (Err ''invalid parameter: timeout'')))"
proof -
  have h1: "id_flag malformed_context \<noteq> []"
    by (simp add: malformed_context_def)
  have h2: "find malformed (Args malformed_context) = Some ''timeout''"
    by (simp add: malformed_context_def malformed_def)
  have g: "HTTP_Get sample_client (chain_path (id_flag malformed_context)) = (Some (Response 1), None)"
      "deserializeAPIResponse sample_client (Some (Response 1)) = Inr sample_chain"
      "Body_Close sample_client (Response 1) 0 = None"
    by (simp_all add: sample_client_def)
  have p: "chain_path (id_flag malformed_context) = ''/v2/chains/solana/sol-1''"
    by (simp add: chain_path_def malformed_context_def)
  show ?thesis
    using h1 h2 g malformed_override_after_GET [OF h1 h2, of sample_lib sample_client]
    by (simp add: p)
qed

text \<open>
  The claim C2 as stated fails: with the argument \<^verbatim>\<open>timeout\<close>, which has no \<^verbatim>\<open>=\<close>, the GET
  of the resource has been issued when the error is returned.
\<close>

theorem malformed_override_counterexample:
  "Args malformed_context = [''timeout''] \<and> malformed ''timeout'' \<and>
   fst (ConfigureSolanaChain sample_lib sample_client malformed_context) =
     [GET ''/v2/chains/solana/sol-1'', CLOSE (Response 1)] \<and>
   snd (ConfigureSolanaChain sample_lib sample_client malformed_context) =
     Returned (Some (Err ''invalid parameter: timeout''))"
  by (simp add: ConfigureSolanaChain_def ConfigureSolanaChain_body_def return_from_def
        malformed_context_def malformed_def sample_client_def Present_def chain_path_def
        merge_overrides_def strings_SplitN_def)

text \<open>
  C7: when Configure succeeds (it returns nil), the GET and the decoding of the
  resource succeeded, the overrides were merged into its configuration, and exactly
  one PATCH was sent, between the GET and the closes. The body of that PATCH is the
  object with the member \<^verbatim>\<open>enabled\<close>, the enabled flag of the resource just fetched, and
  the member \<^verbatim>\<open>config\<close>, the whole merged document.
\<close>

theorem PATCH_body_is_enabled_and_config:
  assumes "snd (ConfigureSolanaChain L cli c) = Returned None"
  shows "\<exists>r chain config r'.
           HTTP_Get cli (chain_path (id_flag c)) = (r, None) \<and>
           deserializeAPIResponse cli r = Inr chain \<and>
           merge_overrides L (Args c) (Config chain) = Inr config \<and>
           fst (ConfigureSolanaChain L cli c) =
             [GET (chain_path (id_flag c)),
              PATCH (chain_path (id_flag c))
                (JObject [(''enabled'', JBool (Enabled chain)), (''config'', JObject config)]),
              CLOSE r', CLOSE r']"
proof -
  let ?fr = "ConfigureSolanaChain_body L cli c"
  have ok: "snd (return_from cli ?fr) = Returned None"
    using assms by (simp add: ConfigureSolanaChain_def)
  have "\<not> (\<exists>e. err ?fr = Some e)"
    using ok return_from_failure [of ?fr _ cli] by blast
  then obtain r chain config r' where
      g: "HTTP_Get cli (chain_path (id_flag c)) = (r, None)"
      and d: "deserializeAPIResponse cli r = Inr chain"
      and m: "merge_overrides L (Args c) (Config chain) = Inr config"
      and fr: "?fr = \<lparr>trace = [GET (chain_path (id_flag c)),
                        PATCH (chain_path (id_flag c))
                          (JObject [(''enabled'', JBool (Enabled chain)), (''config'', JObject config)])],
                      resp = r', deferred = 2, err = renderAPIResponse cli r'\<rparr>"
    using Configure_body_cases [of L cli c] by blast
  have "r' \<noteq> None"
    using ok by (cases r') (simp_all add: return_from_def fr numeral_2_eq_2)
  then obtain x where x: "r' = Some x" by blast
  have "fst (return_from cli ?fr) =
          [GET (chain_path (id_flag c)),
           PATCH (chain_path (id_flag c))
             (JObject [(''enabled'', JBool (Enabled chain)), (''config'', JObject config)])]
          @ replicate 2 (CLOSE x)"
    by (simp only: fr x return_from_def run_deferred_trace frame.simps)
  then have t: "fst (ConfigureSolanaChain L cli c) =
             [GET (chain_path (id_flag c)),
              PATCH (chain_path (id_flag c))
                (JObject [(''enabled'', JBool (Enabled chain)), (''config'', JObject config)]),
              CLOSE x, CLOSE x]"
    by (simp add: ConfigureSolanaChain_def numeral_2_eq_2)
  with g d m show ?thesis by blast
qed

theorem PATCH_body_is_enabled_and_config_witness:
  "snd (ConfigureSolanaChain sample_lib sample_client configure_context) = Returned None \<and>
   HTTP_Get sample_client ''/v2/chains/solana/sol-1'' = (Some (Response 1), None) \<and>
   deserializeAPIResponse sample_client (Some (Response 1)) = Inr sample_chain \<and>
   Enabled sample_chain = True \<and>
   Config sample_chain = [(''url'', JString ''http://a''), (''timeout'', JNumber 5)] \<and>
   merge_overrides sample_lib (Args configure_context) (Config sample_chain) =
     Inr [(''url'', JString ''http://b''), (''timeout'', JNumber 5)] \<and>
   fst (ConfigureSolanaChain sample_lib sample_client configure_context) =
     [GET ''/v2/chains/solana/sol-1'',
      PATCH ''/v2/chains/solana/sol-1''
        (JObject [(''enabled'', JBool True),
                  (''config'', JObject [(''url'', JString ''http://b''), (''timeout'', JNumber 5)])]),
      CLOSE (Response 2), CLOSE (Response 2)]"
proof -
  have e: "Enabled sample_chain = True"
      "Config sample_chain = [(''url'', JString ''http://a''), (''timeout'', JNumber 5)]"
    by (simp_all add: sample_chain_def)
  have m: "merge_overrides sample_lib (Args configure_context) (Config sample_chain) =
     Inr [(''url'', JString ''http://b''), (''timeout'', JNumber 5)]"
    by (simp add: merge_overrides_def strings_SplitN_def override_value_def e
          sample_lib_def sample_Unmarshal_def configure_context_def)
  have g: "HTTP_Get sample_client ''/v2/chains/solana/sol-1'' = (Some (Response 1), None)"
      "deserializeAPIResponse sample_client (Some (Response 1)) = Inr sample_chain"
    by (simp_all add: sample_client_def)
  have p: "chain_path (id_flag configure_context) = ''/v2/chains/solana/sol-1''"
      "id_flag configure_context \<noteq> []" "Present (Args configure_context)"
    by (simp_all add: chain_path_def configure_context_def Present_def)
  have fr: "ConfigureSolanaChain_body sample_lib sample_client configure_context =
      \<lparr>trace = [GET ''/v2/chains/solana/sol-1'',
         PATCH ''/v2/chains/solana/sol-1''
          (JObject [(''enabled'', JBool True),
                    (''config'', JObject [(''url'', JString ''http://b''), (''timeout'', JNumber 5)])])],
       resp = Some (Response 2), deferred = 2, err = None\<rparr>"
    using p(2,3) m e(1)
    by (simp add: ConfigureSolanaChain_body_def Let_def p(1) sample_client_def)
  have cl: "\<And>r n. Body_Close sample_client r n = None"
    by (simp add: sample_client_def)
  have h: "snd (ConfigureSolanaChain sample_lib sample_client configure_context) = Returned None"
    by (simp add: ConfigureSolanaChain_def return_from_def fr numeral_2_eq_2 cl)
  have t: "fst (ConfigureSolanaChain sample_lib sample_client configure_context) =
     [GET ''/v2/chains/solana/sol-1'',
      PATCH ''/v2/chains/solana/sol-1''
        (JObject [(''enabled'', JBool True),
                  (''config'', JObject [(''url'', JString ''http://b''), (''timeout'', JNumber 5)])]),
      CLOSE (Response 2), CLOSE (Response 2)]"
    by (simp add: ConfigureSolanaChain_def return_from_def fr numeral_2_eq_2 cl)
  show ?thesis
    using h m e g t PATCH_body_is_enabled_and_config [OF h] by simp
qed


text \<open>
  Where \<^verbatim>\<open>resp\<close> holds a response at the \<^verbatim>\<open>return\<close> statement, a failing close is
  aggregated: with an error \<open>e\<close> as the result so far and a deferred close that fails
  with \<open>cerr\<close>, Create and Configure return one composite error that holds the messages
  of \<open>e\<close> and, after them, the messages of \<open>cerr\<close>.
\<close>

lemma close_failure_aggregated_with_response:
  "(err (CreateSolanaChain_body L cli c) = Some e \<and>
    resp (CreateSolanaChain_body L cli c) = Some r \<and>
    n < deferred (CreateSolanaChain_body L cli c) \<and>
    Body_Close cli r n = Some cerr \<longrightarrow>
      (\<exists>ms ms'. snd (CreateSolanaChain L cli c) =
         Returned (Some (MultiErr (Errors e @ ms @ Errors cerr @ ms'))))) \<and>
   (err (ConfigureSolanaChain_body L cli c) = Some e \<and>
    resp (ConfigureSolanaChain_body L cli c) = Some r \<and>
    n < deferred (ConfigureSolanaChain_body L cli c) \<and>
    Body_Close cli r n = Some cerr \<longrightarrow>
      (\<exists>ms ms'. snd (ConfigureSolanaChain L cli c) =
         Returned (Some (MultiErr (Errors e @ ms @ Errors cerr @ ms')))))"
  unfolding CreateSolanaChain_def ConfigureSolanaChain_def
  using return_from_composite [of "CreateSolanaChain_body L cli c" e r n cli cerr]
    return_from_composite [of "ConfigureSolanaChain_body L cli c" e r n cli cerr]
  by blast

lemma close_failure_aggregated_example:
  "err (CreateSolanaChain_body sample_lib failing_client create_context)
     = Some (Err ''unexpected response'') \<and>
   resp (CreateSolanaChain_body sample_lib failing_client create_context) = Some (Response 3) \<and>
   0 < deferred (CreateSolanaChain_body sample_lib failing_client create_context) \<and>
   err (ConfigureSolanaChain_body sample_lib failing_client configure_context)
     = Some (Err ''unexpected response'') \<and>
   resp (ConfigureSolanaChain_body sample_lib failing_client configure_context) = Some (Response 2) \<and>
   0 < deferred (ConfigureSolanaChain_body sample_lib failing_client configure_context) \<and>
   Body_Close failing_client (Response 3) 0 = Some (Err ''close failed'') \<and>
   Body_Close failing_client (Response 2) 0 = Some (Err ''close failed'') \<and>
   (\<exists>ms ms'. snd (CreateSolanaChain sample_lib failing_client create_context) =
      Returned (Some (MultiErr ([''unexpected response''] @ ms @ [''close failed''] @ ms')))) \<and>
   (\<exists>ms ms'. snd (ConfigureSolanaChain sample_lib failing_client configure_context) =
      Returned (Some (MultiErr ([''unexpected response''] @ ms @ [''close failed''] @ ms')))) \<and>
   snd (CreateSolanaChain sample_lib failing_client create_context) =
     Returned (Some (MultiErr [''unexpected response'', ''close failed''])) \<and>
   snd (ConfigureSolanaChain sample_lib failing_client configure_context) =
     Returned (Some (MultiErr [''unexpected response'', ''close failed'', ''close failed'']))"
proof -
  have m: "merge_overrides sample_lib (Args configure_context)
       [(''url'', JString ''http://a''), (''timeout'', JNumber 5)] =
     Inr [(''url'', JString ''http://b''), (''timeout'', JNumber 5)]"
    by (simp add: merge_overrides_def strings_SplitN_def override_value_def
          sample_lib_def sample_Unmarshal_def configure_context_def)
  have p: "id_flag configure_context \<noteq> []" "Present (Args configure_context)"
      "id_flag create_context \<noteq> []" "Present (Args create_context)"
    by (simp_all add: configure_context_def create_context_def Present_def)
  have cr: "CreateSolanaChain_body sample_lib failing_client create_context =
      \<lparr>trace = [POST ''/v2/chains/solana'' (''sol-3'', ''{}'')], resp = Some (Response 3),
       deferred = 1, err = Some (Err ''unexpected response'')\<rparr>"
    using p(3,4)
    by (simp add: CreateSolanaChain_body_def Let_def failing_client_def sample_client_def
          sample_lib_def First_def create_context_def)
  have cf: "\<exists>body. ConfigureSolanaChain_body sample_lib failing_client configure_context =
      \<lparr>trace = [GET ''/v2/chains/solana/sol-1'', PATCH ''/v2/chains/solana/sol-1'' body],
       resp = Some (Response 2), deferred = 2, err = Some (Err ''unexpected response'')\<rparr>"
    using p(1,2) m
    by (simp add: ConfigureSolanaChain_body_def Let_def failing_client_def sample_client_def
          sample_chain_def chain_path_def configure_context_def)
  have cl: "\<And>r n. Body_Close failing_client r n = Some (Err ''close failed'')"
    by (simp add: failing_client_def sample_client_def)
  have e1: "err (CreateSolanaChain_body sample_lib failing_client create_context)
              = Some (Err ''unexpected response'')"
      "resp (CreateSolanaChain_body sample_lib failing_client create_context) = Some (Response 3)"
      "0 < deferred (CreateSolanaChain_body sample_lib failing_client create_context)"
    by (simp_all add: cr)
  have e2: "err (ConfigureSolanaChain_body sample_lib failing_client configure_context)
              = Some (Err ''unexpected response'')"
      "resp (ConfigureSolanaChain_body sample_lib failing_client configure_context) = Some (Response 2)"
      "0 < deferred (ConfigureSolanaChain_body sample_lib failing_client configure_context)"
    using cf by auto
  have r1: "snd (CreateSolanaChain sample_lib failing_client create_context) =
     Returned (Some (MultiErr [''unexpected response'', ''close failed'']))"
    by (simp add: CreateSolanaChain_def return_from_def cr cl)
  have r2: "snd (ConfigureSolanaChain sample_lib failing_client configure_context) =
     Returned (Some (MultiErr [''unexpected response'', ''close failed'', ''close failed'']))"
    using cf by (auto simp: ConfigureSolanaChain_def return_from_def cl numeral_2_eq_2)
  have a1: "\<exists>ms ms'. snd (CreateSolanaChain sample_lib failing_client create_context) =
      Returned (Some (MultiErr ([''unexpected response''] @ ms @ [''close failed''] @ ms')))"
    using close_failure_aggregated_with_response [of sample_lib failing_client create_context
        "Err ''unexpected response''" "Response 3" 0 "Err ''close failed''"] e1 cl
    by simp
  have a2: "\<exists>ms ms'. snd (ConfigureSolanaChain sample_lib failing_client configure_context) =
      Returned (Some (MultiErr ([''unexpected response''] @ ms @ [''close failed''] @ ms')))"
    using close_failure_aggregated_with_response [of sample_lib failing_client configure_context
        "Err ''unexpected response''" "Response 2" 0 "Err ''close failed''"] e2 cl
    by simp
  show ?thesis
    using e1 e2 cl r1 r2 a1 a2 by simp
qed


text \<open>
  When the PATCH fails and returns no response, line 199 has stored nil in \<^verbatim>\<open>resp\<close>, and
  the deferred function registered after the GET closes whatever \<^verbatim>\<open>resp\<close> holds: it
  dereferences nil and panics. The response of the GET is never closed and the error
  of the PATCH is lost.
\<close>

lemma PATCH_failure_without_response:
  assumes "id_flag c \<noteq> []" and "Present (Args c)"
    and "HTTP_Get cli (chain_path (id_flag c)) = (r, None)"
    and "deserializeAPIResponse cli r = Inr chain"
    and "merge_overrides L (Args c) (Config chain) = Inr config"
    and "HTTP_Patch cli (chain_path (id_flag c))
           (JObject [(''enabled'', JBool (Enabled chain)), (''config'', JObject config)])
         = (None, Some e)"
  shows "ConfigureSolanaChain_body L cli c =
           \<lparr>trace = [GET (chain_path (id_flag c)),
                     PATCH (chain_path (id_flag c))
                       (JObject [(''enabled'', JBool (Enabled chain)), (''config'', JObject config)])],
            resp = None, deferred = 1, err = errorOut (Some e)\<rparr>"
    and "ConfigureSolanaChain L cli c =
           ([GET (chain_path (id_flag c)),
             PATCH (chain_path (id_flag c))
               (JObject [(''enabled'', JBool (Enabled chain)), (''config'', JObject config)])],
            Panic nil_dereference)"
proof -
  show fr: "ConfigureSolanaChain_body L cli c =
           \<lparr>trace = [GET (chain_path (id_flag c)),
                     PATCH (chain_path (id_flag c))
                       (JObject [(''enabled'', JBool (Enabled chain)), (''config'', JObject config)])],
            resp = None, deferred = 1, err = errorOut (Some e)\<rparr>"
    unfolding ConfigureSolanaChain_body_def Let_def Marshal_PATCH_body
    using assms by simp
  show "ConfigureSolanaChain L cli c =
           ([GET (chain_path (id_flag c)),
             PATCH (chain_path (id_flag c))
               (JObject [(''enabled'', JBool (Enabled chain)), (''config'', JObject config)])],
            Panic nil_dereference)"
    by (simp add: ConfigureSolanaChain_def return_from_def fr)
qed

text \<open>
  C8 fails on this path of Configure. The id is \<^verbatim>\<open>sol-1\<close> and the override \<^verbatim>\<open>url=http://b\<close>;
  the GET and the decoding succeed, the PATCH fails with \<^verbatim>\<open>connection refused\<close> and no
  response, and closing the body of the GET response would fail. At the \<^verbatim>\<open>return\<close>
  statement the result is the error of the PATCH, one deferred close is registered and
  \<^verbatim>\<open>resp\<close> is nil. Configure then returns no composite error: it panics, and no body has
  been closed.
\<close>

theorem PATCH_failure_panics_instead_of_aggregating:
  "HTTP_Get patch_down_client ''/v2/chains/solana/sol-1'' = (Some (Response 1), None) \<and>
   Body_Close patch_down_client (Response 1) 0 = Some (Err ''close failed'') \<and>
   err (ConfigureSolanaChain_body sample_lib patch_down_client configure_context)
     = Some (Err ''connection refused'') \<and>
   resp (ConfigureSolanaChain_body sample_lib patch_down_client configure_context) = None \<and>
   deferred (ConfigureSolanaChain_body sample_lib patch_down_client configure_context) = 1 \<and>
   ConfigureSolanaChain sample_lib patch_down_client configure_context =
     ([GET ''/v2/chains/solana/sol-1'',
       PATCH ''/v2/chains/solana/sol-1''
         (JObject [(''enabled'', JBool True),
                   (''config'', JObject [(''url'', JString ''http://b''), (''timeout'', JNumber 5)])])],
      Panic nil_dereference)"
proof -
  have e: "Enabled sample_chain = True"
      "Config sample_chain = [(''url'', JString ''http://a''), (''timeout'', JNumber 5)]"
    by (simp_all add: sample_chain_def)
  have m: "merge_overrides sample_lib (Args configure_context) (Config sample_chain) =
     Inr [(''url'', JString ''http://b''), (''timeout'', JNumber 5)]"
    by (simp add: merge_overrides_def strings_SplitN_def override_value_def e
          sample_lib_def sample_Unmarshal_def configure_context_def)
  have p: "chain_path (id_flag configure_context) = ''/v2/chains/solana/sol-1''"
      "id_flag configure_context \<noteq> []" "Present (Args configure_context)"
    by (simp_all add: chain_path_def configure_context_def Present_def)
  have g: "HTTP_Get patch_down_client (chain_path (id_flag configure_context))
             = (Some (Response 1), None)"
      "deserializeAPIResponse patch_down_client (Some (Response 1)) = Inr sample_chain"
      "Body_Close patch_down_client (Response 1) 0 = Some (Err ''close failed'')"
      "\<And>path body. HTTP_Patch patch_down_client path body
         = (None, Some (Err ''connection refused''))"
    by (simp_all add: patch_down_client_def sample_client_def)
  note run = PATCH_failure_without_response [OF p(2,3) g(1,2) m g(4)]
  show ?thesis
    using g(1,3) run by (simp add: p(1) e(1))
qed

end
